theory Spec2Isabelle
  imports Complex_Main "HOL-Library.Multiset"
begin

section \<open>Flow-graph optimisation of the JIT (fgopt.cpp): data model\<close>

text \<open>
  The embedding follows \<^verbatim>\<open>src/coreclr/jit/fgopt.cpp\<close>. A \<^verbatim>\<open>BasicBlock*\<close> is the
  address of a block in the compilation's arena (a natural number); a nullable pointer is an
  option. The intrusive block list (\<^verbatim>\<open>fgFirstBB\<close>, \<^verbatim>\<open>bbNext\<close>) is the list
  \<open>fgBBlist\<close> of addresses in lexical order, in which a block occurs once.
  Debug-only \<^verbatim>\<open>assert\<close>s are not part of the release build and are left out;
  \<^verbatim>\<open>noway_assert\<close> is kept, as a fault value.
  Block weights (\<^verbatim>\<open>weight_t\<close>, a double) are idealised as reals: the code modelled here
  compares them, takes their maximum and subtracts under a guard.
\<close>

type_synonym bref = nat

datatype BBjumpKinds =
    BBJ_EHFINALLYRET | BBJ_EHFAULTRET | BBJ_EHFILTERRET | BBJ_EHCATCHRET
  | BBJ_THROW | BBJ_RETURN | BBJ_ALWAYS | BBJ_CALLFINALLY | BBJ_COND | BBJ_SWITCH

datatype BasicBlockFlags =
    BBF_REMOVED | BBF_DONT_REMOVE | BBF_INTERNAL | BBF_IMPORTED | BBF_RUN_RARELY
  | BBF_PROF_WEIGHT | BBF_KEEP_BBJ_ALWAYS | BBF_LOOP_PREHEADER | BBF_FUNCLET_BEG
  | BBF_NONE_QUIRK | BBF_RETLESS_CALL | BBF_LOOP_ALIGN | BBF_GC_SAFE_POINT
  | BBF_CLONED_FINALLY_BEGIN | BBF_DOMINATED_BY_EXCEPTIONAL_ENTRY | BBF_IS_LIR
  | BBF_HAS_NEWOBJ | BBF_HAS_CALL | BBF_COLD

datatype jit_fault =
    noway_assert_failed  \<comment> \<open>a \<^verbatim>\<open>noway_assert\<close> that does not hold\<close>
  | null_dereference     \<comment> \<open>a member access through \<^verbatim>\<open>nullptr\<close>\<close>
  | bitset_out_of_range  \<comment> \<open>a \<^verbatim>\<open>BlockSetOps\<close> access at an index beyond the set's size\<close>
  | does_not_terminate   \<comment> \<open>a loop of the source that never exits\<close>
  | array_out_of_bounds  \<comment> \<open>an array access at an index beyond the array\<close>
  | lir_form             \<comment> \<open>the block is in LIR form, which this model does not cover\<close>
  | unlinked_block       \<comment> \<open>the link of a block that is no longer in the block list is followed,
                              which this model does not cover\<close>

datatype genTreeOps =
    GT_SWITCH | GT_JTRUE | GT_EQ | GT_CNS_INT | GT_LCL_VAR | GT_STORE_LCL_VAR | GT_PHI
  | GT_CALL | GT_COMMA | GT_NOP | GT_NO_OP | GT_RETURN | GT_ADD | GT_IND

datatype GenTreeFlags =
    GTF_ASG | GTF_CALL | GTF_EXCEPT | GTF_GLOB_REF | GTF_ORDER_SIDEEFF
  | GTF_RELOP_JMP_USED | GTF_DONT_CSE

datatype var_types = TYP_VOID | TYP_BYTE | TYP_SHORT | TYP_INT | TYP_LONG | TYP_REF

text \<open>
  An IR tree node: operator, type, flags, operands and, for a constant or a local, its
  value or number.
\<close>

datatype GenTree =
  GenTree (gtOper: genTreeOps) (gtType: var_types) (gtFlags: "GenTreeFlags set")
          (gtOperands: "GenTree list") (gtIconVal: int)

text \<open>
  A statement of the statement-form IR. The statements of a block are linked forwards
  through \<open>m_next\<close>, ending in \<^verbatim>\<open>nullptr\<close>; \<open>m_prev\<close> links backwards, and the
  \<open>m_prev\<close> of the first statement is the last statement of the block. Statements live
  in the arena \<open>stmts\<close> of the compilation and are referred to by their index.
\<close>

record Statement =
  m_rootNode :: GenTree
  m_next :: "nat option"
  m_prev :: "nat option"

type_synonym stmtHeap = "Statement list"

record LoopDsc =
  lpIsRemoved :: bool
  lpHead :: "bref option"
  lpTop :: "bref option"
  lpEntry :: "bref option"
  lpBottom :: "bref option"
  lpExit :: "bref option"
  lpExitCnt :: nat

record FlowEdge =
  m_sourceBlock :: bref
  m_dupCount :: nat
  m_edgeWeightMin :: real
  m_edgeWeightMax :: real

record BasicBlock =
  bbNum :: nat
  bbFlags :: "BasicBlockFlags set"
  bbJumpKind :: BBjumpKinds
  bbJumpDest :: "bref option"
  bbJumpSwt :: "bref list"       \<comment> \<open>\<^verbatim>\<open>bbsDstTab\<close>, of length \<^verbatim>\<open>bbsCount\<close>\<close>
  bbJumpEhf :: "bref list"
  bbStmtList :: "nat option"     \<comment> \<open>address of the first \<^verbatim>\<open>Statement\<close>\<close>
  bbPreds :: "FlowEdge list"
  bbRefs :: nat
  bbWeight :: real
  bbTryIndex :: "nat option"
  bbHndIndex :: "nat option"
  bbCatchTyp :: nat              \<comment> \<open>\<^verbatim>\<open>BBCT_NONE\<close> is 0\<close>
  bbNatLoopNum :: "nat option"   \<comment> \<open>\<^verbatim>\<open>NOT_IN_LOOP\<close> is \<open>None\<close>\<close>
  bbReach :: "nat set"
  bbIDom :: "bref option"
  bbPreorderNum :: nat
  bbPostorderNum :: nat
  bbLiveOut :: "nat set"
  bbCodeOffs :: "nat option"     \<comment> \<open>\<^verbatim>\<open>BAD_IL_OFFSET\<close> is \<open>None\<close>\<close>
  bbCodeOffsEnd :: "nat option"

record EHblkDsc =
  ebdTryBeg :: bref
  ebdTryLast :: bref
  ebdHndBeg :: bref
  ebdHndLast :: bref
  ebdFilter :: "bref option"            \<comment> \<open>\<^verbatim>\<open>HasFilter()\<close> is \<open>ebdFilter \<noteq> None\<close>\<close>
  ebdEnclosingTryIndex :: "nat option"  \<comment> \<open>\<^verbatim>\<open>NO_ENCLOSING_INDEX\<close> is \<open>None\<close>\<close>

record Compiler =
  blk :: "bref \<Rightarrow> BasicBlock"
  fgBBlist :: "bref list"
  fgBBNumMax :: nat
  fgBBcount :: nat
  fgCurBBEpoch :: nat
  fgCurBBEpochSize :: nat
  fgDomsComputed :: bool
  fgDomBBcount :: nat
  compHndBBtab :: "EHblkDsc list"
  genReturnBB :: "bref option"
  fgEnterBlks :: "nat set"
  FEATURE_EH_FUNCLETS :: bool   \<comment> \<open>build configuration: the target uses EH funclets\<close>
  stmts :: stmtHeap
  fgModified :: bool
  fgHaveValidEdgeWeights :: bool
  fgReachabilitySetsValid :: bool
  optLoopsRequirePreHeaders :: bool
  fgCanRelocateEHRegions :: bool
  optLoopTable :: "LoopDsc list"
  fgFirstBBScratch :: "bref option"
  fgFirstColdBlock :: "bref option"
  BBF_COMPACT_UPD :: "BasicBlockFlags set"  \<comment> \<open>the flag mask of that name in \<^verbatim>\<open>block.h\<close>\<close>
  fgIsUsingProfileWeights :: bool
  gtExtractSideEffList :: "GenTree \<Rightarrow> GenTree option"
  fgBBReversePostorder :: "bref option list"
  fgDomTreePreOrder :: "nat list"
  fgDomTreePostOrder :: "nat list"
  opts_IsOSR :: bool
  fgEntryBB :: "bref option"
  compIsForInlining :: bool
  opts_OptimizationEnabled :: bool
  optLoopTableValid :: bool
  fgAddCodeList :: "bref list"  \<comment> \<open>the blocks created as throw helpers\<close>

definition BB_ZERO_WEIGHT :: real where
  "BB_ZERO_WEIGHT = 0"

definition updBlk :: "bref \<Rightarrow> (BasicBlock \<Rightarrow> BasicBlock) \<Rightarrow> Compiler \<Rightarrow> Compiler" where
  "updBlk b f c = c\<lparr>blk := (blk c)(b := f (blk c b))\<rparr>"

text \<open>A block and a compilation with every field at its initial value.\<close>

definition block0 :: BasicBlock where
  "block0 = \<lparr>bbNum = 0, bbFlags = {}, bbJumpKind = BBJ_RETURN, bbJumpDest = None, bbJumpSwt = [],
     bbJumpEhf = [], bbStmtList = None, bbPreds = [], bbRefs = 0, bbWeight = 1, bbTryIndex = None,
     bbHndIndex = None, bbCatchTyp = 0, bbNatLoopNum = None, bbReach = {}, bbIDom = None,
     bbPreorderNum = 0, bbPostorderNum = 0, bbLiveOut = {}, bbCodeOffs = None,
     bbCodeOffsEnd = None\<rparr>"

definition compiler0 :: Compiler where
  "compiler0 = \<lparr>blk = (\<lambda>b. block0), fgBBlist = [], fgBBNumMax = 0, fgBBcount = 0,
     fgCurBBEpoch = 1, fgCurBBEpochSize = 1, fgDomsComputed = False, fgDomBBcount = 0,
     compHndBBtab = [], genReturnBB = None, fgEnterBlks = {},
     FEATURE_EH_FUNCLETS = True, stmts = [], fgModified = False,
     fgHaveValidEdgeWeights = False, fgReachabilitySetsValid = False,
     optLoopsRequirePreHeaders = False, fgCanRelocateEHRegions = True, optLoopTable = [],
     fgFirstBBScratch = None, fgFirstColdBlock = None,
     BBF_COMPACT_UPD = {BBF_GC_SAFE_POINT, BBF_HAS_NEWOBJ, BBF_HAS_CALL, BBF_LOOP_PREHEADER},
     fgIsUsingProfileWeights = False, gtExtractSideEffList = (\<lambda>t. None),
     fgBBReversePostorder = [], fgDomTreePreOrder = [], fgDomTreePostOrder = [],
     opts_IsOSR = False, fgEntryBB = None, compIsForInlining = False,
     opts_OptimizationEnabled = True, optLoopTableValid = False, fgAddCodeList = []\<rparr>"

subsection \<open>Block accessors\<close>

text \<open>
  Modelled from the spec: the accessors of \<^verbatim>\<open>BasicBlock\<close> are declared in
  \<^verbatim>\<open>block.h\<close>, which is not among the sources. The data model of the spec gives a
  block a flag set with \<^emph>\<open>run-rarely\<close> and \<^emph>\<open>profile-weight-present\<close>, a weight, an
  optional try/handler region index and a kind whose successors are derived from the kind
  plus the switch table.
\<close>

definition isRunRarely :: "BasicBlock \<Rightarrow> bool" where
  "isRunRarely b = (BBF_RUN_RARELY \<in> bbFlags b)"

definition hasProfileWeight :: "BasicBlock \<Rightarrow> bool" where
  "hasProfileWeight b = (BBF_PROF_WEIGHT \<in> bbFlags b)"

definition bbSetRunRarely :: "BasicBlock \<Rightarrow> BasicBlock" where
  "bbSetRunRarely b = b\<lparr>bbWeight := BB_ZERO_WEIGHT, bbFlags := insert BBF_RUN_RARELY (bbFlags b)\<rparr>"

definition setBBProfileWeight :: "real \<Rightarrow> BasicBlock \<Rightarrow> BasicBlock" where
  "setBBProfileWeight w b =
     b\<lparr>bbWeight := w,
       bbFlags := (if w = BB_ZERO_WEIGHT
                   then insert BBF_RUN_RARELY (insert BBF_PROF_WEIGHT (bbFlags b))
                   else insert BBF_PROF_WEIGHT (bbFlags b) - {BBF_RUN_RARELY})\<rparr>"

definition KindIs :: "BasicBlock \<Rightarrow> BBjumpKinds \<Rightarrow> bool" where
  "KindIs b k = (bbJumpKind b = k)"

definition HasJumpTo :: "BasicBlock \<Rightarrow> bref \<Rightarrow> bool" where
  "HasJumpTo b t = (bbJumpDest b = Some t)"

definition countOfInEdges :: "BasicBlock \<Rightarrow> nat" where
  "countOfInEdges b = bbRefs b"

definition isBBCallAlwaysPair :: "BasicBlock \<Rightarrow> bool" where
  "isBBCallAlwaysPair b = (bbJumpKind b = BBJ_CALLFINALLY \<and> BBF_RETLESS_CALL \<notin> bbFlags b)"

definition PredBlocks :: "BasicBlock \<Rightarrow> bref list" where
  "PredBlocks b = map m_sourceBlock (bbPreds b)"

text \<open>The block list: \<^verbatim>\<open>Next()\<close> and \<^verbatim>\<open>Prev()\<close> of a block, and the chain from a block on.\<close>

fun nextIn :: "bref list \<Rightarrow> bref \<Rightarrow> bref option" where
  "nextIn [] b = None"
| "nextIn [x] b = None"
| "nextIn (x # y # ys) b = (if x = b then Some y else nextIn (y # ys) b)"

fun prevIn :: "bref list \<Rightarrow> bref \<Rightarrow> bref option" where
  "prevIn [] b = None"
| "prevIn [x] b = None"
| "prevIn (x # y # ys) b = (if y = b then Some x else prevIn (y # ys) b)"

definition Next :: "Compiler \<Rightarrow> bref \<Rightarrow> bref option" where
  "Next c b = nextIn (fgBBlist c) b"

definition Prev :: "Compiler \<Rightarrow> bref \<Rightarrow> bref option" where
  "Prev c b = prevIn (fgBBlist c) b"

definition chainFrom :: "Compiler \<Rightarrow> bref \<Rightarrow> bref list" where
  "chainFrom c b = dropWhile (\<lambda>x. x \<noteq> b) (fgBBlist c)"

definition fgFirstBB :: "Compiler \<Rightarrow> bref option" where
  "fgFirstBB c = (case fgBBlist c of [] \<Rightarrow> None | b # _ \<Rightarrow> Some b)"

fun nonDuplicates :: "bref list \<Rightarrow> bref list \<Rightarrow> bref list" where
  "nonDuplicates seen [] = []"
| "nonDuplicates seen (x # xs) =
     (if x \<in> set seen then nonDuplicates seen xs else x # nonDuplicates (x # seen) xs)"

definition optList :: "'a option \<Rightarrow> 'a list" where
  "optList x = (case x of None \<Rightarrow> [] | Some y \<Rightarrow> [y])"

definition Succs :: "Compiler \<Rightarrow> bref \<Rightarrow> bref list" where
  "Succs c b =
     (let bb = blk c b in
      case bbJumpKind bb of
        BBJ_THROW \<Rightarrow> []
      | BBJ_RETURN \<Rightarrow> []
      | BBJ_EHFAULTRET \<Rightarrow> []
      | BBJ_EHFINALLYRET \<Rightarrow> bbJumpEhf bb
      | BBJ_EHFILTERRET \<Rightarrow> optList (bbJumpDest bb)
      | BBJ_EHCATCHRET \<Rightarrow> optList (bbJumpDest bb)
      | BBJ_ALWAYS \<Rightarrow> optList (bbJumpDest bb)
      | BBJ_CALLFINALLY \<Rightarrow> optList (bbJumpDest bb)
      | BBJ_COND \<Rightarrow>
          (if bbJumpDest bb = Next c b then optList (Next c b)
           else optList (Next c b) @ optList (bbJumpDest bb))
      | BBJ_SWITCH \<Rightarrow> nonDuplicates [] (bbJumpSwt bb))"

definition NumSucc :: "Compiler \<Rightarrow> bref \<Rightarrow> nat" where
  "NumSucc c b = length (Succs c b)"

subsection \<open>Exception-handling table\<close>

text \<open>
  Modelled from the spec: \<^verbatim>\<open>bbIsTryBeg\<close> and \<^verbatim>\<open>bbIsHandlerBeg\<close> are defined in
  \<^verbatim>\<open>jiteh.cpp\<close>, which is not among the sources. The spec's EH region descriptor is a
  table of try/handler records with begin and end blocks and an optional filter begin; a
  block carries an optional try and handler region index.
\<close>

definition bbIsTryBeg :: "Compiler \<Rightarrow> bref \<Rightarrow> bool" where
  "bbIsTryBeg c b =
     (case bbTryIndex (blk c b) of
        None \<Rightarrow> False
      | Some i \<Rightarrow> i < length (compHndBBtab c) \<and> ebdTryBeg (compHndBBtab c ! i) = b)"


section \<open>fgRemoveDeadBlocks: the worklist walk and the removability predicate\<close>








section \<open>fgExpandRarelyRunBlocks\<close>

text \<open>
  The lambda \<^verbatim>\<open>newRunRarely\<close>: the lexically earliest predecessor of \<open>bPrev\<close>, when it
  lies before \<open>bPrev\<close>. \<open>earlierPred\<close> is one round of its \<^verbatim>\<open>while (pred != nullptr)\<close>
  loop with \<open>bPrevPrev\<close> set: the walk along \<^verbatim>\<open>Next()\<close> from the predecessor stops at
  \<open>bPrevPrev\<close> (the predecessor is earlier) or at \<open>bPrev\<close>. With \<open>bPrevPrev\<close> unset the loop
  takes the predecessor and goes round again with the same edge.
\<close>

definition earlierPred :: "Compiler \<Rightarrow> bref \<Rightarrow> bref \<Rightarrow> bref \<Rightarrow> bref" where
  "earlierPred c bPrev bPrevPrev src =
     (case find (\<lambda>tmpbb. tmpbb = bPrevPrev \<or> tmpbb = bPrev) (chainFrom c src) of
        None \<Rightarrow> bPrevPrev
      | Some tmpbb \<Rightarrow> if tmpbb = bPrevPrev then src else bPrevPrev)"

fun earliestPred :: "Compiler \<Rightarrow> bref \<Rightarrow> bref option \<Rightarrow> FlowEdge list \<Rightarrow> bref option" where
  "earliestPred c bPrev bPrevPrev [] = bPrevPrev"
| "earliestPred c bPrev None (pred # preds) =
     earliestPred c bPrev
       (Some (earlierPred c bPrev (m_sourceBlock pred) (m_sourceBlock pred))) preds"
| "earliestPred c bPrev (Some bPrevPrev) (pred # preds) =
     earliestPred c bPrev (Some (earlierPred c bPrev bPrevPrev (m_sourceBlock pred))) preds"

definition newRunRarely :: "Compiler \<Rightarrow> bref \<Rightarrow> bref \<Rightarrow> jit_fault + bref option" where
  "newRunRarely c block bPrev =
     (case (if BBF_KEEP_BBJ_ALWAYS \<in> bbFlags (blk c bPrev)
            then (case Prev c bPrev of
                    None \<Rightarrow> Inl noway_assert_failed
                  | Some tmpbb \<Rightarrow>
                      if FEATURE_EH_FUNCLETS c
                      then (if isBBCallAlwaysPair (blk c tmpbb) then Inr (Some tmpbb)
                            else Inl noway_assert_failed)
                      else Inr (if KindIs (blk c tmpbb) BBJ_CALLFINALLY then Some tmpbb else None))
            else Inr None) of
        Inl e \<Rightarrow> Inl e
      | Inr start \<Rightarrow>
          (case earliestPred c bPrev start (bbPreds (blk c bPrev)) of
             None \<Rightarrow> Inr None
           | Some bPrevPrev \<Rightarrow>
               Inr (if bPrev \<in> set (chainFrom c bPrevPrev) then Some bPrevPrev else None)))"

definition jumpDestRunRarely :: "Compiler \<Rightarrow> bref \<Rightarrow> jit_fault + bool" where
  "jumpDestRunRarely c b =
     (case bbJumpDest (blk c b) of
        None \<Rightarrow> Inl null_dereference
      | Some d \<Rightarrow> Inr (isRunRarely (blk c d)))"

definition rarelyRunReason :: "Compiler \<Rightarrow> bref \<Rightarrow> bref \<Rightarrow> jit_fault + bool" where
  "rarelyRunReason c bPrev block =
     (case bbJumpKind (blk c bPrev) of
        BBJ_ALWAYS \<Rightarrow> jumpDestRunRarely c bPrev
      | BBJ_CALLFINALLY \<Rightarrow>
          Inr (isBBCallAlwaysPair (blk c bPrev) \<and> isRunRarely (blk c block))
      | BBJ_COND \<Rightarrow>
          (if isRunRarely (blk c block) then jumpDestRunRarely c bPrev else Inr False)
      | _ \<Rightarrow> Inr False)"

definition positionOf :: "Compiler \<Rightarrow> bref \<Rightarrow> nat" where
  "positionOf c b = length (takeWhile (\<lambda>x. x \<noteq> b) (fgBBlist c))"

definition notRareCount :: "Compiler \<Rightarrow> nat" where
  "notRareCount c = length (filter (\<lambda>b. \<not> isRunRarely (blk c b)) (fgBBlist c))"

text \<open>
  The first loop of \<^verbatim>\<open>fgExpandRarelyRunBlocks\<close>. The loop variables are \<open>bPrev\<close>, at
  position \<open>i\<close> of the block list, and \<open>block = bPrev->Next()\<close>, at position \<open>i + 1\<close>;
  after \<^verbatim>\<open>block = bContinue\<close> the loop header moves \<open>bPrev\<close> to \<open>bContinue\<close>.
  Each backtracking step follows the marking of one more block, which bounds the loop.
\<close>

lemma filter_length_mono:
  "(\<And>x. x \<in> set xs \<Longrightarrow> Q x \<Longrightarrow> P x) \<Longrightarrow> length (filter Q xs) \<le> length (filter P xs)"
  by (induction xs) auto

lemma filter_length_strict:
  "(\<And>x. x \<in> set xs \<Longrightarrow> Q x \<Longrightarrow> P x) \<Longrightarrow> y \<in> set xs \<Longrightarrow> P y \<Longrightarrow> \<not> Q y
   \<Longrightarrow> length (filter Q xs) < length (filter P xs)"
proof (induction xs)
  case Nil
  then show ?case by simp
next
  case (Cons a xs)
  have le: "length (filter Q xs) \<le> length (filter P xs)"
    using Cons.prems(1) by (intro filter_length_mono) auto
  show ?case
  proof (cases "y = a")
    case True
    then show ?thesis using Cons.prems le by simp
  next
    case False
    then have "length (filter Q xs) < length (filter P xs)"
      using Cons by auto
    then show ?thesis using Cons.prems(1)[of a] by auto
  qed
qed

lemma notRareCount_mark:
  assumes "i < length (fgBBlist c)" "\<not> isRunRarely (blk c (fgBBlist c ! i))"
  shows "notRareCount (updBlk (fgBBlist c ! i) bbSetRunRarely c) < notRareCount c"
  unfolding notRareCount_def
proof -
  let ?c' = "updBlk (fgBBlist c ! i) bbSetRunRarely c"
  have l: "fgBBlist ?c' = fgBBlist c" by (simp add: updBlk_def)
  show "length (filter (\<lambda>b. \<not> isRunRarely (blk ?c' b)) (fgBBlist ?c'))
        < length (filter (\<lambda>b. \<not> isRunRarely (blk c b)) (fgBBlist c))"
    unfolding l
  proof (rule filter_length_strict[where y = "fgBBlist c ! i"])
    fix x assume "\<not> isRunRarely (blk ?c' x)"
    then show "\<not> isRunRarely (blk c x)"
      by (auto simp: updBlk_def isRunRarely_def bbSetRunRarely_def split: if_splits)
  next
    show "fgBBlist c ! i \<in> set (fgBBlist c)" using assms(1) by simp
  next
    show "\<not> isRunRarely (blk c (fgBBlist c ! i))" by (rule assms(2))
  next
    show "\<not> \<not> isRunRarely (blk ?c' (fgBBlist c ! i))"
      by (simp add: updBlk_def isRunRarely_def bbSetRunRarely_def)
  qed
qed

function rarelyRunPass1 :: "Compiler \<Rightarrow> nat \<Rightarrow> bool \<Rightarrow> jit_fault + Compiler \<times> bool" where
  "rarelyRunPass1 c i result =
     (if length (fgBBlist c) \<le> Suc i then Inr (c, result)
      else if isRunRarely (blk c (fgBBlist c ! i)) then rarelyRunPass1 c (Suc i) result
      else if hasProfileWeight (blk c (fgBBlist c ! i)) then rarelyRunPass1 c (Suc i) result
      else (case rarelyRunReason c (fgBBlist c ! i) (fgBBlist c ! Suc i) of
              Inl e \<Rightarrow> Inl e
            | Inr reason \<Rightarrow>
                if \<not> reason then rarelyRunPass1 c (Suc i) result
                else
                  (case newRunRarely (updBlk (fgBBlist c ! i) bbSetRunRarely c)
                          (fgBBlist c ! Suc i) (fgBBlist c ! i) of
                     Inl e \<Rightarrow> Inl e
                   | Inr None \<Rightarrow>
                       rarelyRunPass1 (updBlk (fgBBlist c ! i) bbSetRunRarely c)
                         (Suc i) True
                   | Inr (Some bContinue) \<Rightarrow>
                       rarelyRunPass1 (updBlk (fgBBlist c ! i) bbSetRunRarely c)
                         (positionOf c bContinue) True)))"
  by pat_completeness auto
termination
  apply (relation "inv_image (less_than <*lex*> less_than)
           (\<lambda>(c, i, result). (notRareCount c, length (fgBBlist c) - i))")
       apply (intro wf_inv_image wf_lex_prod wf_less_than)
      apply (simp_all add: notRareCount_mark)
  done

declare rarelyRunPass1.simps [simp del]

section \<open>Statement lists and predecessor edges\<close>

definition bindF :: "jit_fault + 'a \<Rightarrow> ('a \<Rightarrow> jit_fault + 'b) \<Rightarrow> jit_fault + 'b" where
  "bindF m f = (case m of Inl e \<Rightarrow> Inl e | Inr x \<Rightarrow> f x)"

text \<open>
  Modelled from the spec: the members of \<^verbatim>\<open>Statement\<close> and \<^verbatim>\<open>GenTree\<close> are declared in
  \<^verbatim>\<open>gentree.h\<close>, and \<^verbatim>\<open>firstStmt\<close>, \<^verbatim>\<open>lastStmt\<close>, \<^verbatim>\<open>FirstNonPhiDef\<close> and
  \<^verbatim>\<open>isEmpty\<close> in \<^verbatim>\<open>block.h\<close>; neither file is among the sources. A block has an
  ordered sequence of statements; a block is empty when it has no statements. A phi
  definition is a store to a local whose value is a \<^verbatim>\<open>GT_PHI\<close> node. A member access
  through \<^verbatim>\<open>nullptr\<close>, or through an address outside the arena, is a fault.
\<close>

definition derefStmt :: "stmtHeap \<Rightarrow> nat option \<Rightarrow> jit_fault + Statement" where
  "derefStmt h p =
     (case p of
        None \<Rightarrow> Inl null_dereference
      | Some a \<Rightarrow> if a < length h then Inr (h ! a) else Inl null_dereference)"

definition GetNextStmt :: "stmtHeap \<Rightarrow> nat option \<Rightarrow> jit_fault + nat option" where
  "GetNextStmt h p = bindF (derefStmt h p) (\<lambda>s. Inr (m_next s))"

definition GetPrevStmt :: "stmtHeap \<Rightarrow> nat option \<Rightarrow> jit_fault + nat option" where
  "GetPrevStmt h p = bindF (derefStmt h p) (\<lambda>s. Inr (m_prev s))"

definition SetNextStmt :: "nat option \<Rightarrow> nat option \<Rightarrow> stmtHeap \<Rightarrow> jit_fault + stmtHeap" where
  "SetNextStmt p n h =
     (case p of
        None \<Rightarrow> Inl null_dereference
      | Some a \<Rightarrow> if a < length h then Inr (h[a := (h ! a)\<lparr>m_next := n\<rparr>])
                  else Inl null_dereference)"

definition SetPrevStmt :: "nat option \<Rightarrow> nat option \<Rightarrow> stmtHeap \<Rightarrow> jit_fault + stmtHeap" where
  "SetPrevStmt p n h =
     (case p of
        None \<Rightarrow> Inl null_dereference
      | Some a \<Rightarrow> if a < length h then Inr (h[a := (h ! a)\<lparr>m_prev := n\<rparr>])
                  else Inl null_dereference)"

definition SetRootNode :: "nat option \<Rightarrow> GenTree \<Rightarrow> stmtHeap \<Rightarrow> jit_fault + stmtHeap" where
  "SetRootNode p t h =
     (case p of
        None \<Rightarrow> Inl null_dereference
      | Some a \<Rightarrow> if a < length h then Inr (h[a := (h ! a)\<lparr>m_rootNode := t\<rparr>])
                  else Inl null_dereference)"

definition IsPhiDefn :: "GenTree \<Rightarrow> bool" where
  "IsPhiDefn t =
     (gtOper t = GT_STORE_LCL_VAR \<and>
      (case gtOperands t of [d] \<Rightarrow> gtOper d = GT_PHI | _ \<Rightarrow> False))"

definition IsPhiDefnStmt :: "Statement \<Rightarrow> bool" where
  "IsPhiDefnStmt s = IsPhiDefn (m_rootNode s)"

text \<open>
  The loop of \<^verbatim>\<open>FirstNonPhiDef\<close>: skip phi definitions along \<open>m_next\<close>. A chain of more
  statements than the arena holds passes through one statement twice, and the loop, which
  stops only at a statement that is not a phi definition, never ends on it.
\<close>

fun firstNonPhiFrom :: "nat \<Rightarrow> stmtHeap \<Rightarrow> nat option \<Rightarrow> jit_fault + nat option" where
  "firstNonPhiFrom fuel h None = Inr None"
| "firstNonPhiFrom 0 h (Some p) =
     (if p < length h then Inl does_not_terminate else Inl null_dereference)"
| "firstNonPhiFrom (Suc fuel) h (Some p) =
     (if p < length h
      then (if IsPhiDefnStmt (h ! p) then firstNonPhiFrom fuel h (m_next (h ! p))
            else Inr (Some p))
      else Inl null_dereference)"

definition FirstNonPhiDef :: "stmtHeap \<Rightarrow> nat option \<Rightarrow> jit_fault + nat option" where
  "FirstNonPhiDef h first = firstNonPhiFrom (length h) h first"

definition lastStmt :: "stmtHeap \<Rightarrow> nat option \<Rightarrow> jit_fault + nat option" where
  "lastStmt h first = (case first of None \<Rightarrow> Inr None | Some a \<Rightarrow> GetPrevStmt h (Some a))"

definition isEmpty :: "BasicBlock \<Rightarrow> bool" where
  "isEmpty b = (bbStmtList b = None)"

definition IsLIR :: "BasicBlock \<Rightarrow> bool" where
  "IsLIR b = (BBF_IS_LIR \<in> bbFlags b)"

text \<open>
  The statements of a block in order: the addresses met along \<open>m_next\<close> from the first
  statement (the iteration \<^verbatim>\<open>block->Statements()\<close>).
\<close>

fun statementsFrom :: "nat \<Rightarrow> stmtHeap \<Rightarrow> nat option \<Rightarrow> jit_fault + nat list" where
  "statementsFrom fuel h None = Inr []"
| "statementsFrom 0 h (Some p) =
     (if p < length h then Inl does_not_terminate else Inl null_dereference)"
| "statementsFrom (Suc fuel) h (Some p) =
     (if p < length h
      then bindF (statementsFrom fuel h (m_next (h ! p))) (\<lambda>rest. Inr (p # rest))
      else Inl null_dereference)"

definition Statements :: "Compiler \<Rightarrow> bref \<Rightarrow> jit_fault + nat list" where
  "Statements c b = statementsFrom (length (stmts c)) (stmts c) (bbStmtList (blk c b))"

text \<open>
  Modelled from the spec: the maintenance of predecessor edges (\<^verbatim>\<open>fgGetPredForBlock\<close>,
  \<^verbatim>\<open>fgRemoveRefPred\<close>, \<^verbatim>\<open>fgAddRefPred\<close>, \<^verbatim>\<open>fgReplacePred\<close>, \<^verbatim>\<open>fgReplaceJumpTarget\<close>,
  \<^verbatim>\<open>fgChangeSwitchBlock\<close>, \<^verbatim>\<open>fgChangeEhfBlock\<close>, \<^verbatim>\<open>ensurePredListOrder\<close>) is defined in
  \<^verbatim>\<open>fgflow.cpp\<close> and \<^verbatim>\<open>block.cpp\<close>, which are not among the sources. A flow edge is a
  (source, target) pair owned by the target, with a duplicate count of at least one and
  min/max weight estimates; \<open>bbRefs\<close> counts the control-flow paths entering the block;
  the list of a block is kept in the order of the sources' numbers.
\<close>

definition BB_MAX_WEIGHT :: real where
  "BB_MAX_WEIGHT = 340282346638528859811704183484516925440"

definition fgGetPredForBlock :: "BasicBlock \<Rightarrow> bref \<Rightarrow> FlowEdge option" where
  "fgGetPredForBlock b blockPred = find (\<lambda>e. m_sourceBlock e = blockPred) (bbPreds b)"

fun decrementEdge :: "bref \<Rightarrow> FlowEdge list \<Rightarrow> FlowEdge list" where
  "decrementEdge p [] = []"
| "decrementEdge p (e # es) =
     (if m_sourceBlock e = p
      then (if m_dupCount e \<le> 1 then es else e\<lparr>m_dupCount := m_dupCount e - 1\<rparr> # es)
      else e # decrementEdge p es)"

definition fgRemoveRefPred ::
  "bref \<Rightarrow> bref \<Rightarrow> Compiler \<Rightarrow> jit_fault + FlowEdge option \<times> Compiler" where
  "fgRemoveRefPred block blockPred c =
     (if countOfInEdges (blk c block) = 0 then Inl noway_assert_failed
      else case fgGetPredForBlock (blk c block) blockPred of
             None \<Rightarrow> Inl noway_assert_failed
           | Some flow \<Rightarrow>
               if m_dupCount flow = 0 then Inl noway_assert_failed
               else
                 let c1 = updBlk block
                            (\<lambda>b. b\<lparr>bbRefs := bbRefs b - 1,
                                  bbPreds := decrementEdge blockPred (bbPreds b)\<rparr>) c
                 in if m_dupCount flow = 1
                    then Inr (Some (flow\<lparr>m_dupCount := 0\<rparr>), c1\<lparr>fgModified := True\<rparr>)
                    else Inr (None, c1))"

fun insertEdge :: "Compiler \<Rightarrow> FlowEdge \<Rightarrow> FlowEdge list \<Rightarrow> FlowEdge list" where
  "insertEdge c new [] = [new]"
| "insertEdge c new (e # es) =
     (if bbNum (blk c (m_sourceBlock e)) < bbNum (blk c (m_sourceBlock new))
      then e # insertEdge c new es
      else if m_sourceBlock e = m_sourceBlock new
           then e\<lparr>m_dupCount := m_dupCount e + 1\<rparr> # es
           else new # e # es)"

definition fgAddRefPred :: "bref \<Rightarrow> bref \<Rightarrow> FlowEdge option \<Rightarrow> Compiler \<Rightarrow> Compiler" where
  "fgAddRefPred block blockPred oldEdge c =
     (let new = \<lparr>m_sourceBlock = blockPred, m_dupCount = 1,
                 m_edgeWeightMin =
                   (if fgHaveValidEdgeWeights c
                    then (case oldEdge of None \<Rightarrow> BB_ZERO_WEIGHT | Some old \<Rightarrow> m_edgeWeightMin old)
                    else BB_ZERO_WEIGHT),
                 m_edgeWeightMax =
                   (if fgHaveValidEdgeWeights c
                    then (case oldEdge of
                            None \<Rightarrow> min (bbWeight (blk c block)) (bbWeight (blk c blockPred))
                          | Some old \<Rightarrow> m_edgeWeightMax old)
                    else BB_MAX_WEIGHT)\<rparr>;
          c1 = updBlk block
                 (\<lambda>b. b\<lparr>bbRefs := bbRefs b + 1, bbPreds := insertEdge c new (bbPreds b)\<rparr>) c
      in if fgGetPredForBlock (blk c block) blockPred = None then c1\<lparr>fgModified := True\<rparr>
         else c1)"

fun predListOrdered :: "Compiler \<Rightarrow> FlowEdge list \<Rightarrow> bool" where
  "predListOrdered c [] = True"
| "predListOrdered c [e] = True"
| "predListOrdered c (e # f # es) =
     (bbNum (blk c (m_sourceBlock e)) < bbNum (blk c (m_sourceBlock f))
      \<and> predListOrdered c (f # es))"

definition ensurePredListOrder :: "bref \<Rightarrow> Compiler \<Rightarrow> Compiler" where
  "ensurePredListOrder block c =
     (if predListOrdered c (bbPreds (blk c block)) then c
      else updBlk block
             (\<lambda>b. b\<lparr>bbPreds := sort_key (\<lambda>e. bbNum (blk c (m_sourceBlock e))) (bbPreds b)\<rparr>) c)"

fun replaceSource :: "bref \<Rightarrow> bref \<Rightarrow> FlowEdge list \<Rightarrow> FlowEdge list" where
  "replaceSource oldPred newPred [] = []"
| "replaceSource oldPred newPred (e # es) =
     (if m_sourceBlock e = oldPred then e\<lparr>m_sourceBlock := newPred\<rparr> # es
      else e # replaceSource oldPred newPred es)"

definition fgReplacePred :: "bref \<Rightarrow> bref \<Rightarrow> bref \<Rightarrow> Compiler \<Rightarrow> Compiler" where
  "fgReplacePred block oldPred newPred c =
     (if oldPred \<in> set (PredBlocks (blk c block))
      then ensurePredListOrder block
             (updBlk block (\<lambda>b. b\<lparr>bbPreds := replaceSource oldPred newPred (bbPreds b)\<rparr>) c)
      else c)"

definition fgChangeSuccessorsBlock :: "bref list \<Rightarrow> bref \<Rightarrow> bref \<Rightarrow> Compiler \<Rightarrow> Compiler" where
  "fgChangeSuccessorsBlock targets oldBlock newBlock c =
     fold (\<lambda>t. fgReplacePred t oldBlock newBlock) (nonDuplicates [] targets) c"

definition fgChangeSwitchBlock :: "bref \<Rightarrow> bref \<Rightarrow> Compiler \<Rightarrow> Compiler" where
  "fgChangeSwitchBlock oldSwitchBlock newSwitchBlock c =
     fgChangeSuccessorsBlock (bbJumpSwt (blk c oldSwitchBlock)) oldSwitchBlock newSwitchBlock c"

definition fgChangeEhfBlock :: "bref \<Rightarrow> bref \<Rightarrow> Compiler \<Rightarrow> Compiler" where
  "fgChangeEhfBlock oldBlock newBlock c =
     fgChangeSuccessorsBlock (bbJumpEhf (blk c oldBlock)) oldBlock newBlock c"

text \<open>One table entry, or the jump target, of \<open>block\<close> retargeted from \<open>oldTarget\<close>.\<close>

definition retargetOnce :: "bref \<Rightarrow> bref \<Rightarrow> bref \<Rightarrow> Compiler \<Rightarrow> jit_fault + Compiler" where
  "retargetOnce block newTarget oldTarget c =
     bindF (fgRemoveRefPred oldTarget block c) (\<lambda>(flow, c1).
       Inr (fgAddRefPred newTarget block None c1))"

fun retargetTable ::
  "bref \<Rightarrow> bref \<Rightarrow> bref \<Rightarrow> nat \<Rightarrow> nat \<Rightarrow> Compiler \<Rightarrow> jit_fault + Compiler" where
  "retargetTable block newTarget oldTarget 0 i c = Inr c"
| "retargetTable block newTarget oldTarget (Suc n) i c =
     (if i < length (bbJumpSwt (blk c block)) \<and> bbJumpSwt (blk c block) ! i = oldTarget
      then bindF (retargetOnce block newTarget oldTarget
                    (updBlk block (\<lambda>b. b\<lparr>bbJumpSwt := (bbJumpSwt b)[i := newTarget]\<rparr>) c))
                 (retargetTable block newTarget oldTarget n (Suc i))
      else retargetTable block newTarget oldTarget n (Suc i) c)"

definition fgReplaceJumpTarget :: "bref \<Rightarrow> bref \<Rightarrow> bref \<Rightarrow> Compiler \<Rightarrow> jit_fault + Compiler" where
  "fgReplaceJumpTarget block newTarget oldTarget c =
     (if bbJumpKind (blk c block) \<in> {BBJ_CALLFINALLY, BBJ_COND, BBJ_ALWAYS, BBJ_EHCATCHRET,
                                        BBJ_EHFILTERRET}
      then (if HasJumpTo (blk c block) oldTarget
            then retargetOnce block newTarget oldTarget
                   (updBlk block (\<lambda>b. b\<lparr>bbJumpDest := Some newTarget\<rparr>) c)
            else Inr c)
      else if bbJumpKind (blk c block) = BBJ_SWITCH
      then retargetTable block newTarget oldTarget (length (bbJumpSwt (blk c block))) 0 c
      else Inl noway_assert_failed)"

section \<open>fgCanCompactBlocks and fgCompactBlocks\<close>

text \<open>
  Modelled from the spec: \<^verbatim>\<open>fgBBisScratch\<close>, \<^verbatim>\<open>optIsLoopEntry\<close>,
  \<^verbatim>\<open>fgInDifferentRegions\<close>, \<^verbatim>\<open>sameEHRegion\<close>, \<^verbatim>\<open>sameTryRegion\<close> and
  \<^verbatim>\<open>isLoopAlign\<close> are defined outside the sources. Two blocks are in the same EH region
  when their try and handler region indices agree, in different hot/cold regions when a
  cold section exists and exactly one of them is cold; a loop-table entry records the head,
  top, entry, bottom and exit blocks of a loop.
\<close>

definition fgBBisScratch :: "Compiler \<Rightarrow> bref \<Rightarrow> bool" where
  "fgBBisScratch c b = (fgFirstBBScratch c = Some b)"

definition optIsLoopEntry :: "Compiler \<Rightarrow> bref \<Rightarrow> bool" where
  "optIsLoopEntry c b = list_ex (\<lambda>l. \<not> lpIsRemoved l \<and> lpEntry l = Some b) (optLoopTable c)"

definition fgInDifferentRegions :: "Compiler \<Rightarrow> bref \<Rightarrow> bref \<Rightarrow> bool" where
  "fgInDifferentRegions c b1 b2 =
     (fgFirstColdBlock c \<noteq> None \<and>
      (BBF_COLD \<in> bbFlags (blk c b1)) \<noteq> (BBF_COLD \<in> bbFlags (blk c b2)))"

definition sameEHRegion :: "BasicBlock \<Rightarrow> BasicBlock \<Rightarrow> bool" where
  "sameEHRegion b1 b2 = (bbTryIndex b1 = bbTryIndex b2 \<and> bbHndIndex b1 = bbHndIndex b2)"

definition sameTryRegion :: "BasicBlock \<Rightarrow> BasicBlock \<Rightarrow> bool" where
  "sameTryRegion b1 b2 = (bbTryIndex b1 = bbTryIndex b2)"

definition hasTryIndex :: "BasicBlock \<Rightarrow> bool" where
  "hasTryIndex b = (bbTryIndex b \<noteq> None)"

definition isLoopAlign :: "BasicBlock \<Rightarrow> bool" where
  "isLoopAlign b = (BBF_LOOP_ALIGN \<in> bbFlags b)"

definition fgCanCompactBlocks :: "Compiler \<Rightarrow> bref option \<Rightarrow> bref option \<Rightarrow> bool" where
  "fgCanCompactBlocks c blockP bNextP =
     (case blockP of
        None \<Rightarrow> False
      | Some block \<Rightarrow>
     (case bNextP of
        None \<Rightarrow> False
      | Some bNext \<Rightarrow>
         (let b = blk c block; n = blk c bNext in
          if \<not> KindIs b BBJ_ALWAYS \<or> \<not> HasJumpTo b bNext \<or> BBF_KEEP_BBJ_ALWAYS \<in> bbFlags b
            then False
          else if countOfInEdges n \<noteq> 1 \<and>
                  (\<not> isEmpty b \<or> BBF_FUNCLET_BEG \<in> bbFlags b \<or> bbCatchTyp b \<noteq> 0)
            then False
          else if BBF_DONT_REMOVE \<in> bbFlags n then False
          else if optLoopsRequirePreHeaders c \<and> BBF_LOOP_PREHEADER \<in> bbFlags b
                  \<and> countOfInEdges n \<noteq> 1
            then False
          else if fgBBisScratch c block then False
          else if optIsLoopEntry c block then False
          else if fgInDifferentRegions c block bNext then False
          else if fgCanRelocateEHRegions c \<and> \<not> sameEHRegion b n then False
          else if countOfInEdges n > 1 \<and> isLoopAlign n then False
          else if bbNatLoopNum b \<noteq> None \<and> bbNatLoopNum n \<noteq> None
                  \<and> bbNatLoopNum b \<noteq> bbNatLoopNum n
            then False
          else if list_ex (\<lambda>p. KindIs (blk c p) BBJ_SWITCH) (PredBlocks n) then False
          else True)))"

text \<open>The \<^verbatim>\<open>noway_assert\<close>s at the head of \<^verbatim>\<open>fgCompactBlocks\<close>.\<close>

definition fgCompactBlocks_asserts :: "Compiler \<Rightarrow> bref \<Rightarrow> bref \<Rightarrow> bool" where
  "fgCompactBlocks_asserts c block bNext =
     (BBF_REMOVED \<notin> bbFlags (blk c block)
      \<and> BBF_REMOVED \<notin> bbFlags (blk c bNext)
      \<and> Next c block = Some bNext
      \<and> (countOfInEdges (blk c bNext) = 1 \<or> isEmpty (blk c block))
      \<and> bbPreds (blk c bNext) \<noteq> []
      \<and> \<not> bbIsTryBeg c bNext
      \<and> bbCatchTyp (blk c bNext) = 0
      \<and> BBF_DONT_REMOVE \<notin> bbFlags (blk c bNext)
      \<and> hasTryIndex (blk c block) = hasTryIndex (blk c bNext))"

text \<open>
  The other edges into \<open>bNext\<close> are retargeted to \<open>block\<close>; the predecessors are collected
  first, then popped from the stack, so the last of the list comes first.
\<close>

fun retargetPreds :: "bref list \<Rightarrow> bref \<Rightarrow> bref \<Rightarrow> Compiler \<Rightarrow> jit_fault + Compiler" where
  "retargetPreds [] block bNext c = Inr c"
| "retargetPreds (predBlock # preds) block bNext c =
     bindF (fgReplaceJumpTarget predBlock block bNext c) (retargetPreds preds block bNext)"

definition fgCompactBlocks_otherEdges :: "bref \<Rightarrow> bref \<Rightarrow> Compiler \<Rightarrow> jit_fault + Compiler" where
  "fgCompactBlocks_otherEdges block bNext c =
     (if countOfInEdges (blk c bNext) > 0
      then retargetPreds (rev (PredBlocks (blk c bNext))) block bNext
             (updBlk block (\<lambda>b. b\<lparr>bbFlags := bbFlags b - {BBF_LOOP_PREHEADER}\<rparr>) c)
      else Inr c)"

text \<open>
  The phi definitions of the second block are moved behind the phi definitions of the
  first (statement form). The arguments are the heap and the \<^verbatim>\<open>bbStmtList\<close> of \<open>block\<close>
  and of \<open>bNext\<close>; the result is the heap and the two list heads after the splice. Each
  line is one pointer read or write of the source, in the source's order.
\<close>

definition fgCompactBlocks_phis ::
  "stmtHeap \<Rightarrow> nat option \<Rightarrow> nat option \<Rightarrow> jit_fault + stmtHeap \<times> nat option \<times> nat option" where
  "fgCompactBlocks_phis h blkFirst bNextFirst =
     bindF (FirstNonPhiDef h blkFirst) (\<lambda>blkNonPhi1.
     bindF (FirstNonPhiDef h bNextFirst) (\<lambda>bNextNonPhi1.
     if bNextFirst \<noteq> None \<and> bNextFirst \<noteq> bNextNonPhi1
     then
       bindF (GetPrevStmt h bNextFirst) (\<lambda>bNextLast.
       if blkNonPhi1 \<noteq> blkFirst
       then
         bindF (if blkNonPhi1 \<noteq> None then GetPrevStmt h blkNonPhi1
                else GetPrevStmt h blkFirst) (\<lambda>blkLastPhi.
         bindF (SetNextStmt blkLastPhi bNextFirst h) (\<lambda>h1.
         bindF (SetPrevStmt bNextFirst blkLastPhi h1) (\<lambda>h2.
         bindF (if bNextNonPhi1 \<noteq> None then GetPrevStmt h2 bNextNonPhi1
                else GetPrevStmt h2 bNextFirst) (\<lambda>bNextLastPhi.
         bindF (SetNextStmt bNextLastPhi blkNonPhi1 h2) (\<lambda>h3.
         bindF (if blkNonPhi1 \<noteq> None then SetPrevStmt blkNonPhi1 bNextLastPhi h3
                else SetPrevStmt blkFirst bNextLastPhi h3) (\<lambda>h4.
         bindF (if bNextNonPhi1 \<noteq> None then SetPrevStmt bNextNonPhi1 bNextLast h4
                else Inr h4) (\<lambda>h5.
         Inr (h5, blkFirst, bNextNonPhi1))))))))
       else if blkFirst \<noteq> None
       then
         bindF (GetPrevStmt h blkFirst) (\<lambda>blkLast.
         bindF (if bNextNonPhi1 \<noteq> None then GetPrevStmt h bNextNonPhi1
                else GetPrevStmt h bNextFirst) (\<lambda>bNextLastPhi.
         bindF (SetPrevStmt bNextFirst blkLast h) (\<lambda>h1.
         bindF (SetNextStmt bNextLastPhi blkFirst h1) (\<lambda>h2.
         bindF (SetPrevStmt blkFirst bNextLastPhi h2) (\<lambda>h3.
         bindF (if bNextNonPhi1 \<noteq> None then SetPrevStmt bNextNonPhi1 bNextLast h3
                else Inr h3) (\<lambda>h4.
         Inr (h4, bNextFirst, bNextNonPhi1)))))))
       else Inr (h, blkFirst, bNextFirst))
     else Inr (h, blkFirst, bNextFirst)))"

text \<open>
  Then the statement list of the second block is appended to that of the first. The result
  is the heap and the \<^verbatim>\<open>bbStmtList\<close> of \<open>block\<close>.
\<close>

definition fgCompactBlocks_append ::
  "stmtHeap \<Rightarrow> nat option \<Rightarrow> nat option \<Rightarrow> jit_fault + stmtHeap \<times> nat option" where
  "fgCompactBlocks_append h stmtList1 stmtList2 =
     (if stmtList1 \<noteq> None
      then bindF (lastStmt h stmtList1) (\<lambda>stmtLast1.
           if stmtList2 \<noteq> None
           then bindF (lastStmt h stmtList2) (\<lambda>stmtLast2.
                bindF (SetNextStmt stmtLast1 stmtList2 h) (\<lambda>h1.
                bindF (SetPrevStmt stmtList2 stmtLast1 h1) (\<lambda>h2.
                bindF (SetPrevStmt stmtList1 stmtLast2 h2) (\<lambda>h3.
                Inr (h3, stmtList1)))))
           else Inr (h, stmtList1))
      else Inr (h, stmtList2))"

definition fgCompactBlocks_statements :: "bref \<Rightarrow> bref \<Rightarrow> Compiler \<Rightarrow> jit_fault + Compiler" where
  "fgCompactBlocks_statements block bNext c =
     (if IsLIR (blk c block) \<or> IsLIR (blk c bNext) then Inl lir_form
      else
        bindF (fgCompactBlocks_phis (stmts c) (bbStmtList (blk c block))
                 (bbStmtList (blk c bNext))) (\<lambda>(h1, blockList, bNextList).
        bindF (fgCompactBlocks_append h1 blockList bNextList) (\<lambda>(h2, blockList2).
        Inr (updBlk block (\<lambda>b. b\<lparr>bbStmtList := blockList2\<rparr>)
              (updBlk bNext (\<lambda>b. b\<lparr>bbStmtList := bNextList\<rparr>) (c\<lparr>stmts := h2\<rparr>))))))"

text \<open>The weight of the merged block; \<open>b\<close> is \<open>block\<close> and \<open>n\<close> is \<open>bNext\<close>.\<close>

definition fgCompactBlocks_weight :: "BasicBlock \<Rightarrow> BasicBlock \<Rightarrow> jit_fault + BasicBlock" where
  "fgCompactBlocks_weight b n =
     (if KindIs n BBJ_THROW then Inr (bbSetRunRarely b)
      else
        let hasProfileWeight' = (hasProfileWeight b \<or> hasProfileWeight n);
            hasNonZeroWeight = (bbWeight b > BB_ZERO_WEIGHT \<or> bbWeight n > BB_ZERO_WEIGHT)
        in if hasProfileWeight' \<or> hasNonZeroWeight
           then (let newWeight = max (bbWeight b) (bbWeight n)
                 in if hasProfileWeight' then Inr (setBBProfileWeight newWeight b)
                    else Inr (b\<lparr>bbWeight := newWeight,
                                bbFlags := bbFlags b - {BBF_RUN_RARELY}\<rparr>))
           else if bbWeight b = BB_ZERO_WEIGHT \<or> bbWeight n = BB_ZERO_WEIGHT
                then Inr (bbSetRunRarely b)
                else Inl noway_assert_failed)"

text \<open>Live-out set, IL offsets and flags taken over from \<open>bNext\<close> (\<open>n\<close>).\<close>

definition fgCompactBlocks_links :: "Compiler \<Rightarrow> BasicBlock \<Rightarrow> BasicBlock \<Rightarrow> BasicBlock" where
  "fgCompactBlocks_links c b n =
     (let b1 = b\<lparr>bbLiveOut := bbLiveOut n\<rparr>;
          b2 = (case bbCodeOffs b1 of
                  None \<Rightarrow> b1\<lparr>bbCodeOffs := bbCodeOffs n\<rparr>
                | Some bo \<Rightarrow>
                    (case bbCodeOffs n of
                       None \<Rightarrow> b1
                     | Some no \<Rightarrow> if bo > no then b1\<lparr>bbCodeOffs := Some no\<rparr> else b1));
          b3 = (case bbCodeOffsEnd b2 of
                  None \<Rightarrow> b2\<lparr>bbCodeOffsEnd := bbCodeOffsEnd n\<rparr>
                | Some be \<Rightarrow>
                    (case bbCodeOffsEnd n of
                       None \<Rightarrow> b2
                     | Some ne \<Rightarrow> if be < ne then b2\<lparr>bbCodeOffsEnd := Some ne\<rparr> else b2));
          b4 = (if BBF_INTERNAL \<in> bbFlags b3 \<and> BBF_INTERNAL \<notin> bbFlags n
                then b3\<lparr>bbFlags := insert BBF_IMPORTED (bbFlags b3 - {BBF_INTERNAL})\<rparr>
                else b3)
      in b4\<lparr>bbFlags := bbFlags b4 \<union> (bbFlags n \<inter> BBF_COMPACT_UPD c)\<rparr>)"

text \<open>
  Modelled from the spec: \<^verbatim>\<open>fgUnlinkRange\<close> and \<^verbatim>\<open>ehUpdateForDeletedBlock\<close> are defined
  in \<^verbatim>\<open>fgbasic.cpp\<close> and \<^verbatim>\<open>jiteh.cpp\<close>, which are not among the sources. A removed
  block is unlinked from the block list; an EH region that ended at the deleted block ends
  at its lexical predecessor.
\<close>

definition fgUnlinkRange :: "bref \<Rightarrow> Compiler \<Rightarrow> Compiler" where
  "fgUnlinkRange b c = c\<lparr>fgBBlist := remove1 b (fgBBlist c)\<rparr>"

definition ehUpdateLastBlocks :: "bref \<Rightarrow> bref \<Rightarrow> Compiler \<Rightarrow> Compiler" where
  "ehUpdateLastBlocks oldLast newLast c =
     c\<lparr>compHndBBtab :=
         map (\<lambda>d. d\<lparr>ebdTryLast := (if ebdTryLast d = oldLast then newLast else ebdTryLast d),
                      ebdHndLast := (if ebdHndLast d = oldLast then newLast else ebdHndLast d)\<rparr>)
             (compHndBBtab c)\<rparr>"

definition ehUpdateForDeletedBlock :: "bref \<Rightarrow> bref option \<Rightarrow> Compiler \<Rightarrow> jit_fault + Compiler" where
  "ehUpdateForDeletedBlock b bPrev c =
     (if bbTryIndex (blk c b) = None \<and> bbHndIndex (blk c b) = None then Inr c
      else case bPrev of
             None \<Rightarrow> Inl null_dereference
           | Some p \<Rightarrow> Inr (ehUpdateLastBlocks b p c))"

definition fgCompactBlocks_unlink :: "bref \<Rightarrow> bref \<Rightarrow> Compiler \<Rightarrow> jit_fault + Compiler" where
  "fgCompactBlocks_unlink block bNext c =
     (let bPrev = Prev c bNext;
          c1 = updBlk bNext (\<lambda>n. n\<lparr>bbFlags := insert BBF_REMOVED (bbFlags n)\<rparr>) c;
          c2 = fgUnlinkRange bNext c1;
          c3 = c2\<lparr>fgBBcount := fgBBcount c2 - 1\<rparr>
      in ehUpdateForDeletedBlock bNext bPrev c3)"

text \<open>
  The \<^verbatim>\<open>switch (bNext->GetJumpKind())\<close> that sets the jump kind and targets of \<open>block\<close>.
  \<open>bNextNext\<close> is \<^verbatim>\<open>bNext->Next()\<close>: unlinking \<open>bNext\<close> does not clear its own link.
\<close>

definition fgCompactBlocks_jump ::
  "bref \<Rightarrow> bref \<Rightarrow> bref option \<Rightarrow> Compiler \<Rightarrow> jit_fault + Compiler" where
  "fgCompactBlocks_jump block bNext bNextNext c =
     (let n = blk c bNext;
          k = bbJumpKind n;
          c1 = (if k = BBJ_CALLFINALLY
                then updBlk block
                       (\<lambda>b. b\<lparr>bbFlags := bbFlags b \<union> (bbFlags n \<inter> {BBF_RETLESS_CALL})\<rparr>) c
                else c);
          c2 = (if k = BBJ_CALLFINALLY \<or> k = BBJ_ALWAYS
                then updBlk block
                       (\<lambda>b. b\<lparr>bbFlags := bbFlags b \<union> (bbFlags n \<inter> {BBF_NONE_QUIRK})\<rparr>) c1
                else c1)
      in if k \<in> {BBJ_CALLFINALLY, BBJ_ALWAYS, BBJ_COND, BBJ_EHCATCHRET, BBJ_EHFILTERRET}
         then
           (case bbJumpDest n of
              None \<Rightarrow> Inl null_dereference
            | Some dest \<Rightarrow>
                let c3 = updBlk block (\<lambda>b. b\<lparr>bbJumpKind := k, bbJumpDest := Some dest\<rparr>) c2;
                    c4 = fgReplacePred dest bNext block c3
                in if k = BBJ_COND \<and> bbJumpDest n \<noteq> bNextNext
                   then (case bNextNext of
                           None \<Rightarrow> Inl null_dereference
                         | Some nn \<Rightarrow> Inr (fgReplacePred nn bNext block c4))
                   else Inr c4)
         else if k = BBJ_EHFINALLYRET
         then Inr (fgChangeEhfBlock bNext block
                     (updBlk block (\<lambda>b. b\<lparr>bbJumpKind := k, bbJumpEhf := bbJumpEhf n\<rparr>) c2))
         else if k = BBJ_SWITCH
         then Inr (fgChangeSwitchBlock bNext block
                     (updBlk block (\<lambda>b. b\<lparr>bbJumpKind := k, bbJumpSwt := bbJumpSwt n\<rparr>) c2))
         else Inr (updBlk block (\<lambda>b. b\<lparr>bbJumpKind := k\<rparr>) c2))"

definition fgCompactBlocks_loopAlign :: "bref \<Rightarrow> bref \<Rightarrow> Compiler \<Rightarrow> jit_fault + Compiler" where
  "fgCompactBlocks_loopAlign block bNext c =
     (let n = blk c bNext in
      bindF (if bbJumpKind n = BBJ_COND \<or> bbJumpKind n = BBJ_ALWAYS
             then (case bbJumpDest n of
                     None \<Rightarrow> Inl null_dereference
                   | Some dest \<Rightarrow>
                       if isLoopAlign (blk c dest)
                       then Inr (updBlk block (\<lambda>b. b\<lparr>bbNatLoopNum := bbNatLoopNum n\<rparr>) c)
                       else Inr c)
             else Inr c) (\<lambda>c1.
      if isLoopAlign n
      then Inr (updBlk block (\<lambda>b. b\<lparr>bbFlags := insert BBF_LOOP_ALIGN (bbFlags b)\<rparr>) c1)
      else Inr c1))"

text \<open>
  A block created after the dominators were computed takes over the number and the
  dominator data of \<open>bNext\<close>.
\<close>

definition fgCompactBlocks_renumber :: "bref \<Rightarrow> bref \<Rightarrow> Compiler \<Rightarrow> Compiler" where
  "fgCompactBlocks_renumber block bNext c =
     (if fgDomsComputed c \<and> bbNum (blk c block) > fgDomBBcount c
      then
        let n = blk c bNext;
            c1 = updBlk block (\<lambda>b. b\<lparr>bbReach := bbReach n, bbIDom := bbIDom n,
                                        bbNum := bbNum n\<rparr>) c;
            c2 = updBlk bNext (\<lambda>b. b\<lparr>bbReach := {}, bbIDom := None\<rparr>) c1
        in fold ensurePredListOrder (fgBBlist c2) c2
      else c)"

definition updateLoop :: "bref \<Rightarrow> bref \<Rightarrow> LoopDsc \<Rightarrow> jit_fault + LoopDsc" where
  "updateLoop block bNext l =
     (if lpIsRemoved l then Inr l
      else
        let l1 = (if lpHead l = Some bNext then l\<lparr>lpHead := Some block\<rparr> else l);
            l2 = (if lpBottom l1 = Some bNext then l1\<lparr>lpBottom := Some block\<rparr> else l1)
        in if lpExit l2 = Some bNext \<and> lpExitCnt l2 \<noteq> 1 then Inl noway_assert_failed
           else
             let l3 = (if lpExit l2 = Some bNext then l2\<lparr>lpExit := Some block\<rparr> else l2);
                 l4 = (if lpEntry l3 = Some bNext then l3\<lparr>lpEntry := Some block\<rparr> else l3)
             in Inr (if lpTop l4 = Some bNext then l4\<lparr>lpTop := Some block\<rparr> else l4))"

fun updateLoops :: "bref \<Rightarrow> bref \<Rightarrow> LoopDsc list \<Rightarrow> jit_fault + LoopDsc list" where
  "updateLoops block bNext [] = Inr []"
| "updateLoops block bNext (l # ls) =
     bindF (updateLoop block bNext l) (\<lambda>l'.
     bindF (updateLoops block bNext ls) (\<lambda>ls'. Inr (l' # ls')))"

definition fgUpdateLoopsAfterCompacting :: "bref \<Rightarrow> bref \<Rightarrow> Compiler \<Rightarrow> jit_fault + Compiler" where
  "fgUpdateLoopsAfterCompacting block bNext c =
     bindF (updateLoops block bNext (optLoopTable c)) (\<lambda>t. Inr (c\<lparr>optLoopTable := t\<rparr>))"

definition fgCompactBlocks :: "bref \<Rightarrow> bref \<Rightarrow> Compiler \<Rightarrow> jit_fault + Compiler" where
  "fgCompactBlocks block bNext c =
     (if \<not> fgCompactBlocks_asserts c block bNext then Inl noway_assert_failed
      else
        let bNextNext = Next c bNext in
        bindF (fgRemoveRefPred bNext block c) (\<lambda>(flow, c1).
        bindF (fgCompactBlocks_otherEdges block bNext c1) (\<lambda>c2.
        bindF (fgCompactBlocks_statements block bNext c2) (\<lambda>c3.
        bindF (fgCompactBlocks_weight (blk c3 block) (blk c3 bNext)) (\<lambda>weighted.
        let c4 = updBlk block (\<lambda>b. weighted) c3;
            c5 = updBlk block (\<lambda>b. fgCompactBlocks_links c4 b (blk c4 bNext)) c4
        in
        bindF (fgCompactBlocks_unlink block bNext c5) (\<lambda>c6.
        bindF (fgCompactBlocks_jump block bNext bNextNext c6) (\<lambda>c7.
        bindF (fgCompactBlocks_loopAlign block bNext c7) (\<lambda>c8.
        fgUpdateLoopsAfterCompacting block bNext
          (fgCompactBlocks_renumber block bNext c8)))))))))"


lemma updBlk_fields [simp]:
  "fgBBlist (updBlk b f c) = fgBBlist c"
  "compHndBBtab (updBlk b f c) = compHndBBtab c"
  "stmts (updBlk b f c) = stmts c"
  "fgBBNumMax (updBlk b f c) = fgBBNumMax c"
  "fgBBcount (updBlk b f c) = fgBBcount c"
  "fgCurBBEpochSize (updBlk b f c) = fgCurBBEpochSize c"
  "fgDomsComputed (updBlk b f c) = fgDomsComputed c"
  "fgDomBBcount (updBlk b f c) = fgDomBBcount c"
  "genReturnBB (updBlk b f c) = genReturnBB c"
  "optLoopTable (updBlk b f c) = optLoopTable c"
  "gtExtractSideEffList (updBlk b f c) = gtExtractSideEffList c"
  "fgBBReversePostorder (updBlk b f c) = fgBBReversePostorder c"
  "fgDomTreePreOrder (updBlk b f c) = fgDomTreePreOrder c"
  "fgDomTreePostOrder (updBlk b f c) = fgDomTreePostOrder c"
  "fgEnterBlks (updBlk b f c) = fgEnterBlks c"
  "fgAddCodeList (updBlk b f c) = fgAddCodeList c"
  by (simp_all add: updBlk_def)

lemma blk_updBlk: "blk (updBlk b f c) x = (if x = b then f (blk c b) else blk c x)"
  by (simp add: updBlk_def)


lemma fgAddRefPred_list [simp]: "fgBBlist (fgAddRefPred block blockPred oldEdge c) = fgBBlist c"
  by (simp add: fgAddRefPred_def Let_def)







lemma ensurePredListOrder_list [simp]: "fgBBlist (ensurePredListOrder b c) = fgBBlist c"
  by (simp add: ensurePredListOrder_def)

lemma fgReplacePred_list [simp]: "fgBBlist (fgReplacePred b old new c) = fgBBlist c"
  by (simp add: fgReplacePred_def)

lemma fold_list_frame:
  "(\<And>x c. fgBBlist (f x c) = fgBBlist c) \<Longrightarrow> fgBBlist (fold f xs c) = fgBBlist c"
  by (induction xs arbitrary: c) simp_all

lemma fgChangeSuccessorsBlock_list [simp]:
  "fgBBlist (fgChangeSuccessorsBlock ts old new c) = fgBBlist c"
  by (simp add: fgChangeSuccessorsBlock_def fold_list_frame)




lemma renumber_list [simp]: "fgBBlist (fgCompactBlocks_renumber block bNext c) = fgBBlist c"
  by (simp add: fgCompactBlocks_renumber_def Let_def fold_list_frame)










section \<open>fgOptimizeSwitchBranches\<close>

text \<open>
  Modelled from the spec: \<^verbatim>\<open>fgRemoveStmt\<close> (\<^verbatim>\<open>fgstmt.cpp\<close>), \<^verbatim>\<open>gtNewZeroConNode\<close>,
  \<^verbatim>\<open>gtNewOperNode\<close>, \<^verbatim>\<open>ChangeOper\<close>, \<^verbatim>\<open>genActualType\<close> (\<^verbatim>\<open>gentree.cpp\<close>,
  \<^verbatim>\<open>gentree.h\<close>) are not among the sources. Removing a statement unlinks it from the
  ordered statement sequence of its block; a new operator node carries the side-effect flags
  of its operands; the actual type of a small integer type is \<^verbatim>\<open>TYP_INT\<close>.
  \<^verbatim>\<open>GTF_SIDE_EFFECT\<close> is the mask of the assignment, call and exception flags.
\<close>

definition GTF_SIDE_EFFECT :: "GenTreeFlags set" where
  "GTF_SIDE_EFFECT = {GTF_ASG, GTF_CALL, GTF_EXCEPT}"

definition GTF_ALL_EFFECT :: "GenTreeFlags set" where
  "GTF_ALL_EFFECT = {GTF_ASG, GTF_CALL, GTF_EXCEPT, GTF_GLOB_REF, GTF_ORDER_SIDEEFF}"

definition genActualType :: "var_types \<Rightarrow> var_types" where
  "genActualType t = (if t = TYP_BYTE \<or> t = TYP_SHORT then TYP_INT else t)"

definition genActualTypeIsIntOrI :: "var_types \<Rightarrow> bool" where
  "genActualTypeIsIntOrI t = (genActualType t = TYP_INT \<or> genActualType t = TYP_LONG)"

definition gtNewZeroConNode :: "var_types \<Rightarrow> GenTree" where
  "gtNewZeroConNode t = GenTree GT_CNS_INT t {} [] 0"

definition gtNewOperNode :: "genTreeOps \<Rightarrow> var_types \<Rightarrow> GenTree \<Rightarrow> GenTree \<Rightarrow> GenTree" where
  "gtNewOperNode oper t op1 op2 =
     GenTree oper t ((gtFlags op1 \<union> gtFlags op2) \<inter> GTF_ALL_EFFECT) [op1, op2] 0"

definition fgRemoveStmt :: "bref \<Rightarrow> nat \<Rightarrow> Compiler \<Rightarrow> jit_fault + Compiler" where
  "fgRemoveStmt block stmt c =
     (let h = stmts c; first = bbStmtList (blk c block) in
      bindF (derefStmt h (Some stmt)) (\<lambda>s.
      if first = Some stmt
      then (if m_next s = None
            then Inr (updBlk block (\<lambda>b. b\<lparr>bbStmtList := None\<rparr>) c)
            else bindF (SetPrevStmt (m_next s) (m_prev s) h) (\<lambda>h1.
                 Inr (updBlk block (\<lambda>b. b\<lparr>bbStmtList := m_next s\<rparr>) (c\<lparr>stmts := h1\<rparr>))))
      else bindF (lastStmt h first) (\<lambda>last.
           if last = Some stmt
           then bindF (SetNextStmt (m_prev s) None h) (\<lambda>h1.
                bindF (SetPrevStmt first (m_prev s) h1) (\<lambda>h2. Inr (c\<lparr>stmts := h2\<rparr>)))
           else bindF (SetNextStmt (m_prev s) (m_next s) h) (\<lambda>h1.
                bindF (SetPrevStmt (m_next s) (m_prev s) h1) (\<lambda>h2. Inr (c\<lparr>stmts := h2\<rparr>))))))"

text \<open>
  One visit of the table entry \<open>i\<close> in the \<^verbatim>\<open>do\<close> loop: when the entry leads to an empty
  unconditional jump that can be bypassed, the entry is redirected and the result is the new
  state; otherwise the result is \<open>None\<close> and the loop moves to the next entry.
\<close>

definition fgOptimizeSwitchBranches_entry ::
  "Compiler \<Rightarrow> bref \<Rightarrow> nat \<Rightarrow> jit_fault + Compiler option" where
  "fgOptimizeSwitchBranches_entry c block i =
     (let bDest = bbJumpSwt (blk c block) ! i;
          d = blk c bDest;
          bNewDest =
            (if isEmpty d \<and> KindIs d BBJ_ALWAYS \<and> \<not> HasJumpTo d bDest
                \<and> \<not> (hasTryIndex d \<and> \<not> sameTryRegion (blk c block) d)
             then bbJumpDest d else Some bDest)
      in case bNewDest of
           None \<Rightarrow> Inl null_dereference
         | Some newDest \<Rightarrow>
             if newDest = bDest then Inr None
             else
               bindF (if fgIsUsingProfileWeights c \<and> hasProfileWeight d
                         \<and> fgHaveValidEdgeWeights c
                      then (case fgGetPredForBlock d block of
                              None \<Rightarrow> Inl null_dereference
                            | Some edge \<Rightarrow>
                                if bbWeight d > m_edgeWeightMin edge
                                then Inr (updBlk bDest
                                       (\<lambda>b. b\<lparr>bbWeight := bbWeight b - m_edgeWeightMin edge\<rparr>) c)
                                else Inr (updBlk bDest
                                       (\<lambda>b. b\<lparr>bbWeight := BB_ZERO_WEIGHT,
                                             bbFlags := insert BBF_RUN_RARELY (bbFlags b)\<rparr>) c))
                      else Inr c) (\<lambda>c1.
               let c2 = updBlk block (\<lambda>b. b\<lparr>bbJumpSwt := (bbJumpSwt b)[i := newDest]\<rparr>) c1
               in bindF (fgRemoveRefPred bDest block c2) (\<lambda>(oldEdge, c3).
                  Inr (Some (fgAddRefPred newDest block oldEdge c3)))))"

text \<open>
  The \<^verbatim>\<open>do \<dots> while (++jmpTab, --jmpCnt)\<close> loop with its \<^verbatim>\<open>goto REPEAT_SWITCH\<close>. An
  entry is followed for as long as it leads to a bypassable block, which need not end (two
  empty blocks that jump to each other): the result \<open>None\<close> stands for a loop that does not
  return.
\<close>

partial_function (option) fgOptimizeSwitchBranches_thread ::
  "Compiler \<Rightarrow> bref \<Rightarrow> nat \<Rightarrow> bool \<Rightarrow> (jit_fault + Compiler \<times> bool) option" where
  "fgOptimizeSwitchBranches_thread c block i returnvalue =
     (if length (bbJumpSwt (blk c block)) \<le> i then Some (Inr (c, returnvalue))
      else case fgOptimizeSwitchBranches_entry c block i of
             Inl e \<Rightarrow> Some (Inl e)
           | Inr None \<Rightarrow> fgOptimizeSwitchBranches_thread c block (Suc i) returnvalue
           | Inr (Some c1) \<Rightarrow> fgOptimizeSwitchBranches_thread c1 block i True)"

declare fgOptimizeSwitchBranches_thread.simps [code]

text \<open>
  A switch with one unique successor becomes a \<^verbatim>\<open>BBJ_ALWAYS\<close>: the switch statement is
  replaced by the side effects extracted from it, or removed when there are none.
  \<^verbatim>\<open>gtExtractSideEffList\<close> is defined in \<^verbatim>\<open>gentree.cpp\<close>, which is not among the
  sources; it is the parameter \<open>gtExtractSideEffList\<close> of the compilation.
\<close>

fun removeRefPreds :: "bref list \<Rightarrow> bref \<Rightarrow> Compiler \<Rightarrow> jit_fault + Compiler" where
  "removeRefPreds [] block c = Inr c"
| "removeRefPreds (t # ts) block c =
     bindF (fgRemoveRefPred t block c) (\<lambda>(flow, c1). removeRefPreds ts block c1)"

definition fgOptimizeSwitchBranches_single ::
  "Compiler \<Rightarrow> bref \<Rightarrow> nat option \<Rightarrow> GenTree \<Rightarrow> jit_fault + Compiler" where
  "fgOptimizeSwitchBranches_single c block switchStmt switchTree =
     (let jmpTab = bbJumpSwt (blk c block);
          sideEffList = (if gtFlags switchTree \<inter> GTF_SIDE_EFFECT \<noteq> {}
                         then gtExtractSideEffList c switchTree else None)
      in bindF (case sideEffList of
                  None \<Rightarrow>
                    (case switchStmt of
                       None \<Rightarrow> Inl null_dereference
                     | Some s \<Rightarrow> fgRemoveStmt block s c)
                | Some effects \<Rightarrow>
                    if gtFlags effects \<inter> GTF_SIDE_EFFECT = {} then Inl noway_assert_failed
                    else if gtOper effects = GT_SWITCH then Inl noway_assert_failed
                    else bindF (SetRootNode switchStmt effects (stmts c)) (\<lambda>h.
                         Inr (c\<lparr>stmts := h\<rparr>))) (\<lambda>c1.
         removeRefPreds (tl jmpTab) block
           (updBlk block (\<lambda>b. b\<lparr>bbJumpKind := BBJ_ALWAYS, bbJumpDest := Some (hd jmpTab)\<rparr>) c1)))"

text \<open>
  A switch with two table entries, the second of which (the default clause) is the lexical
  successor, becomes \<^verbatim>\<open>GT_JTRUE(GT_EQ(switchVal, 0))\<close> jumping to the first entry.
\<close>

definition fgOptimizeSwitchBranches_pair ::
  "Compiler \<Rightarrow> bref \<Rightarrow> nat option \<Rightarrow> GenTree \<Rightarrow> jit_fault + Compiler" where
  "fgOptimizeSwitchBranches_pair c block switchStmt switchTree =
     (case gtOperands switchTree of
        [] \<Rightarrow> Inl null_dereference
      | switchVal # others \<Rightarrow>
          if \<not> genActualTypeIsIntOrI (gtType switchVal) then Inl noway_assert_failed
          else
            let zeroConstNode = gtNewZeroConNode (genActualType (gtType switchVal));
                condNode = gtNewOperNode GT_EQ TYP_INT switchVal zeroConstNode;
                condNode' = GenTree (gtOper condNode) (gtType condNode)
                              (gtFlags condNode \<union> {GTF_RELOP_JMP_USED, GTF_DONT_CSE})
                              (gtOperands condNode) (gtIconVal condNode);
                jtrue = GenTree GT_JTRUE (gtType switchTree) (gtFlags switchTree)
                          (condNode' # others) (gtIconVal switchTree)
            in bindF (SetRootNode switchStmt jtrue (stmts c)) (\<lambda>h.
               Inr (updBlk block
                      (\<lambda>b. b\<lparr>bbJumpKind := BBJ_COND,
                            bbJumpDest := Some (bbJumpSwt (blk c block) ! 0)\<rparr>)
                      (c\<lparr>stmts := h\<rparr>))))"

text \<open>The part of \<^verbatim>\<open>fgOptimizeSwitchBranches\<close> after the loop (statement form).\<close>

definition fgOptimizeSwitchBranches_degenerate ::
  "Compiler \<Rightarrow> bref \<Rightarrow> bool \<Rightarrow> jit_fault + Compiler \<times> bool" where
  "fgOptimizeSwitchBranches_degenerate c block returnvalue =
     (if IsLIR (blk c block) then Inl lir_form
      else
        bindF (lastStmt (stmts c) (bbStmtList (blk c block))) (\<lambda>switchStmt.
        bindF (derefStmt (stmts c) switchStmt) (\<lambda>s.
        let switchTree = m_rootNode s in
        if gtType switchTree \<noteq> TYP_VOID then Inl noway_assert_failed
        else if NumSucc c block = 1
        then bindF (fgOptimizeSwitchBranches_single c block switchStmt switchTree)
               (\<lambda>c1. Inr (c1, True))
        else if length (bbJumpSwt (blk c block)) = 2
                \<and> Next c block = Some (bbJumpSwt (blk c block) ! 1)
        then bindF (fgOptimizeSwitchBranches_pair c block switchStmt switchTree)
               (\<lambda>c1. Inr (c1, True))
        else Inr (c, returnvalue))))"

definition fgOptimizeSwitchBranches ::
  "Compiler \<Rightarrow> bref \<Rightarrow> (jit_fault + Compiler \<times> bool) option" where
  "fgOptimizeSwitchBranches c block =
     (if bbJumpSwt (blk c block) = [] then Some (Inl null_dereference)
      else case fgOptimizeSwitchBranches_thread c block 0 False of
             None \<Rightarrow> None
           | Some (Inl e) \<Rightarrow> Some (Inl e)
           | Some (Inr (c1, returnvalue)) \<Rightarrow>
               Some (fgOptimizeSwitchBranches_degenerate c1 block returnvalue))"


section \<open>fgUpdateFlowGraph\<close>

text \<open>
  The rewrites that \<^verbatim>\<open>fgUpdateFlowGraph\<close> and \<^verbatim>\<open>fgRemoveUnreachableBlocks\<close> call and that
  are not embedded here are parameters of the model, one field each:
  \<^verbatim>\<open>fgOptimizeUncondBranchToSimpleCond\<close>, \<^verbatim>\<open>fgOptimizeBranchToNext\<close>,
  \<^verbatim>\<open>fgOptimizeBranchToEmptyUnconditional\<close>, \<^verbatim>\<open>fgOptimizeEmptyBlock\<close>, \<^verbatim>\<open>fgRemoveBlock\<close>,
  \<^verbatim>\<open>fgRemoveEhfSuccessor\<close>, and the reversal of a conditional jump around an unconditional
  one, which is written out inside \<^verbatim>\<open>fgUpdateFlowGraph\<close> behind the test of the shape of
  \<open>block\<close> and \<open>bNext\<close>. A parameter gives the new compilation and the result of the call,
  a fault, or \<open>None\<close> when the call does not return. The reversal gives \<open>None\<close> inside
  when \<^verbatim>\<open>optimizeJump\<close> ends up false, and else the new compilation and whether the code
  leaves through \<^verbatim>\<open>continue\<close> rather than \<^verbatim>\<open>goto REPEAT\<close>. What is proved below holds for
  every value of the parameters.
\<close>

record flowOps =
  op_fgOptimizeUncondBranchToSimpleCond ::
    "bref \<Rightarrow> bref option \<Rightarrow> Compiler \<Rightarrow> (jit_fault + Compiler \<times> bool) option"
  op_fgOptimizeBranchToNext ::
    "bref \<Rightarrow> bref option \<Rightarrow> bref option \<Rightarrow> Compiler \<Rightarrow> (jit_fault + Compiler \<times> bool) option"
  op_fgOptimizeBranchToEmptyUnconditional ::
    "bref \<Rightarrow> bref \<Rightarrow> Compiler \<Rightarrow> (jit_fault + Compiler \<times> bool) option"
  op_reverseConditionalJump ::
    "bref \<Rightarrow> bref \<Rightarrow> bref \<Rightarrow> Compiler \<Rightarrow> (jit_fault + (Compiler \<times> bool) option) option"
  op_fgOptimizeEmptyBlock :: "bref \<Rightarrow> Compiler \<Rightarrow> (jit_fault + Compiler \<times> bool) option"
  op_fgRemoveBlock :: "bref \<Rightarrow> bool \<Rightarrow> Compiler \<Rightarrow> (jit_fault + Compiler) option"
  op_fgRemoveEhfSuccessor :: "bref \<Rightarrow> bref \<Rightarrow> Compiler \<Rightarrow> (jit_fault + Compiler) option"

text \<open>
  Modelled from the spec: \<^verbatim>\<open>JumpsToNext\<close>, \<^verbatim>\<open>IsFirstColdBlock\<close> and \<^verbatim>\<open>SetNext\<close> are
  defined in \<^verbatim>\<open>block.h\<close>, which is not among the sources. After \<^verbatim>\<open>b->SetNext(next)\<close>
  the block list goes on behind \<open>b\<close> with \<open>next\<close> and the blocks that follow it.
\<close>

definition JumpsToNext :: "Compiler \<Rightarrow> bref \<Rightarrow> bool" where
  "JumpsToNext c b = (bbJumpDest (blk c b) = Next c b)"

definition IsFirstColdBlock :: "Compiler \<Rightarrow> bref \<Rightarrow> bool" where
  "IsFirstColdBlock c b = (fgFirstColdBlock c = Some b)"

definition SetNext :: "bref \<Rightarrow> bref option \<Rightarrow> Compiler \<Rightarrow> Compiler" where
  "SetNext b next c =
     c\<lparr>fgBBlist := takeWhile (\<lambda>x. x \<noteq> b) (fgBBlist c) @ [b]
                     @ (case next of None \<Rightarrow> [] | Some n \<Rightarrow> dropWhile (\<lambda>x. x \<noteq> n) (fgBBlist c))\<rparr>"

text \<open>
  \<^verbatim>\<open>block->Next()\<close> read after a call that may have unlinked \<open>block\<close>: an unlinked block
  keeps the link it had, which is its successor in \<open>c0\<close>, the compilation before the call.
\<close>

definition NextAfter :: "Compiler \<Rightarrow> Compiler \<Rightarrow> bref \<Rightarrow> bref option" where
  "NextAfter c0 c block = (if block \<in> set (fgBBlist c) then Next c block else Next c0 block)"

text \<open>
  The state of the walk: the compilation, \<^verbatim>\<open>change\<close> and \<^verbatim>\<open>modified\<close>. The outcome of the
  body of the \<^verbatim>\<open>for\<close> loop for one block adds the new \<^verbatim>\<open>bPrev\<close> and the block the loop goes
  on with.
\<close>

type_synonym flowState = "Compiler \<times> bool \<times> bool"
type_synonym blockOutcome = "flowState \<times> bref option \<times> bref option"

text \<open>
  The test in front of the reversal of a conditional jump (\<open>bDest\<close> is not \<^verbatim>\<open>nullptr\<close>
  there).
\<close>

definition reversalShape :: "Compiler \<Rightarrow> bref \<Rightarrow> bref option \<Rightarrow> bref \<Rightarrow> bool" where
  "reversalShape c block bNextP bDest =
     (case bNextP of
        None \<Rightarrow> False
      | Some bNext \<Rightarrow>
          KindIs (blk c block) BBJ_COND
          \<and> bbRefs (blk c bNext) = 1
          \<and> KindIs (blk c bNext) BBJ_ALWAYS
          \<and> \<not> JumpsToNext c bNext
          \<and> isEmpty (blk c bNext)
          \<and> \<not> HasJumpTo (blk c bNext) bNext
          \<and> \<not> IsFirstColdBlock c bDest
          \<and> \<not> fgInDifferentRegions c block bDest)"

text \<open>
  The end of the body, from the test of \<^verbatim>\<open>BBF_DONT_REMOVE\<close> on: unreachable and empty
  blocks.
\<close>

definition fgUpdateFlowGraph_remove ::
  "flowOps \<Rightarrow> bref \<Rightarrow> bref option \<Rightarrow> flowState \<Rightarrow> (jit_fault + blockOutcome) option" where
  "fgUpdateFlowGraph_remove ops block bPrev st =
     (case st of (c, change, modified) \<Rightarrow>
        if BBF_DONT_REMOVE \<in> bbFlags (blk c block)
        then Some (Inr (st, Some block, Next c block))
        else if bbCatchTyp (blk c block) \<noteq> 0 then Some (Inl noway_assert_failed)
        else if countOfInEdges (blk c block) = 0
                \<or> (countOfInEdges (blk c block) = 1
                    \<and> (KindIs (blk c block) BBJ_COND \<or> KindIs (blk c block) BBJ_ALWAYS)
                    \<and> HasJumpTo (blk c block) block)
        then (case op_fgRemoveBlock ops block True c of
                None \<Rightarrow> None
              | Some (Inl e) \<Rightarrow> Some (Inl e)
              | Some (Inr c1) \<Rightarrow> Some (Inr ((c1, True, True), bPrev, NextAfter c c1 block)))
        else if BBF_REMOVED \<in> bbFlags (blk c block) then Some (Inl noway_assert_failed)
        else if isEmpty (blk c block)
        then (case op_fgOptimizeEmptyBlock ops block c of
                None \<Rightarrow> None
              | Some (Inl e) \<Rightarrow> Some (Inl e)
              | Some (Inr (c1, madeChanges)) \<Rightarrow>
                  if BBF_REMOVED \<in> bbFlags (blk c1 block)
                  then Some (Inr ((c1, change \<or> madeChanges, modified \<or> madeChanges), bPrev,
                                  NextAfter c c1 block))
                  else Some (Inr ((c1, change \<or> madeChanges, modified \<or> madeChanges),
                                  Some block, Next c1 block)))
        else Some (Inr (st, Some block, Next c block)))"

text \<open>
  The body from the label \<^verbatim>\<open>REPEAT\<close> on; \<^verbatim>\<open>goto REPEAT\<close> is the recursive call. The
  source has no bound on the number of repetitions.
\<close>

partial_function (option) fgUpdateFlowGraph_repeat ::
  "flowOps \<Rightarrow> bool \<Rightarrow> bref \<Rightarrow> bref option \<Rightarrow> flowState \<Rightarrow> (jit_fault + blockOutcome) option" where
  "fgUpdateFlowGraph_repeat ops doTailDuplication block bPrev st =
     (case st of (c, change, modified) \<Rightarrow>
      case (if KindIs (blk c block) BBJ_ALWAYS \<and> doTailDuplication
            then op_fgOptimizeUncondBranchToSimpleCond ops block (bbJumpDest (blk c block)) c
            else Some (Inr (c, False))) of
        None \<Rightarrow> None
      | Some (Inl e) \<Rightarrow> Some (Inl e)
      | Some (Inr (c1, duplicated)) \<Rightarrow>
      let change1 = (change \<or> duplicated); modified1 = (modified \<or> duplicated);
          bNext = Next c1 block
      in
      case (if KindIs (blk c1 block) BBJ_ALWAYS
            then (if bbJumpDest (blk c1 block) = bNext
                  then Some (Inr (updBlk block
                                    (\<lambda>b. b\<lparr>bbFlags := insert BBF_NONE_QUIRK (bbFlags b)\<rparr>) c1,
                                  False, None))
                  else Some (Inr (c1, False, bbJumpDest (blk c1 block))))
            else if KindIs (blk c1 block) BBJ_COND
            then (if bbJumpDest (blk c1 block) = bNext
                  then (case op_fgOptimizeBranchToNext ops block bNext bPrev c1 of
                          None \<Rightarrow> None
                        | Some (Inl e) \<Rightarrow> Some (Inl e)
                        | Some (Inr (c2, optimized)) \<Rightarrow>
                            Some (Inr (c2, optimized,
                                       if optimized then None else bbJumpDest (blk c1 block))))
                  else Some (Inr (c1, False, bbJumpDest (blk c1 block))))
            else Some (Inr (c1, False, None))) of
        None \<Rightarrow> None
      | Some (Inl e) \<Rightarrow> Some (Inl e)
      | Some (Inr (c2, toNext, bDestP)) \<Rightarrow>
      let change2 = (change1 \<or> toNext); modified2 = (modified1 \<or> toNext) in
      case (case bDestP of
              None \<Rightarrow> Some (Inr (c2, False))
            | Some bDest \<Rightarrow>
                if isEmpty (blk c2 bDest) \<and> KindIs (blk c2 bDest) BBJ_ALWAYS
                   \<and> \<not> HasJumpTo (blk c2 bDest) bDest
                   \<and> (\<not> JumpsToNext c2 bDest \<or> BBF_NONE_QUIRK \<notin> bbFlags (blk c2 bDest))
                then op_fgOptimizeBranchToEmptyUnconditional ops block bDest c2
                else Some (Inr (c2, False))) of
        None \<Rightarrow> None
      | Some (Inl e) \<Rightarrow> Some (Inl e)
      | Some (Inr (c3, threaded)) \<Rightarrow>
      if threaded then fgUpdateFlowGraph_repeat ops doTailDuplication block bPrev (c3, True, True)
      else
      case (case bDestP of
              None \<Rightarrow> Some (Inr None)
            | Some bDest \<Rightarrow>
                if reversalShape c3 block bNext bDest
                then (case bNext of
                        None \<Rightarrow> Some (Inr None)
                      | Some n \<Rightarrow> op_reverseConditionalJump ops block n bDest c3)
                else Some (Inr None)) of
        None \<Rightarrow> None
      | Some (Inl e) \<Rightarrow> Some (Inl e)
      | Some (Inr (Some (c4, leave))) \<Rightarrow>
          if leave then Some (Inr ((c4, True, True), bPrev, Next c4 block))
          else fgUpdateFlowGraph_repeat ops doTailDuplication block bPrev (c4, True, True)
      | Some (Inr None) \<Rightarrow>
      case (if KindIs (blk c3 block) BBJ_SWITCH then fgOptimizeSwitchBranches c3 block
            else Some (Inr (c3, False))) of
        None \<Rightarrow> None
      | Some (Inl e) \<Rightarrow> Some (Inl e)
      | Some (Inr (c5, switched)) \<Rightarrow>
      if switched then fgUpdateFlowGraph_repeat ops doTailDuplication block bPrev (c5, True, True)
      else if BBF_REMOVED \<in> bbFlags (blk c5 block) then Some (Inl noway_assert_failed)
      else if fgCanCompactBlocks c5 (Some block) bNext
      then (case bNext of
              None \<Rightarrow> Some (Inl null_dereference)
            | Some n \<Rightarrow>
                (case fgCompactBlocks block n c5 of
                   Inl e \<Rightarrow> Some (Inl e)
                 | Inr c6 \<Rightarrow>
                     fgUpdateFlowGraph_repeat ops doTailDuplication block bPrev (c6, True, True)))
      else fgUpdateFlowGraph_remove ops block bPrev (c5, change2, modified2))"

declare fgUpdateFlowGraph_repeat.simps [code]

text \<open>
  The \<^verbatim>\<open>for\<close> loop over the blocks. A block marked \<^verbatim>\<open>BBF_REMOVED\<close> is unlinked behind
  \<^verbatim>\<open>bPrev\<close>; neither \<^verbatim>\<open>change\<close> nor \<^verbatim>\<open>modified\<close> is written there.
\<close>

partial_function (option) fgUpdateFlowGraph_walk ::
  "flowOps \<Rightarrow> bool \<Rightarrow> bref option \<Rightarrow> bref option \<Rightarrow> flowState \<Rightarrow> (jit_fault + flowState) option" where
  "fgUpdateFlowGraph_walk ops doTailDuplication blockP bPrev st =
     (case blockP of
        None \<Rightarrow> Some (Inr st)
      | Some block \<Rightarrow>
          (case st of (c, change, modified) \<Rightarrow>
             if block \<notin> set (fgBBlist c) then Some (Inl unlinked_block)
             else if BBF_REMOVED \<in> bbFlags (blk c block)
             then (case bPrev of
                     Some p \<Rightarrow>
                       fgUpdateFlowGraph_walk ops doTailDuplication (Next c block) bPrev
                         (SetNext p (Next c block) c, change, modified)
                   | None \<Rightarrow> Some (Inl noway_assert_failed))
             else (case fgUpdateFlowGraph_repeat ops doTailDuplication block bPrev st of
                     None \<Rightarrow> None
                   | Some (Inl e) \<Rightarrow> Some (Inl e)
                   | Some (Inr (st', bPrev', next)) \<Rightarrow>
                       fgUpdateFlowGraph_walk ops doTailDuplication next bPrev' st')))"

declare fgUpdateFlowGraph_walk.simps [code]

text \<open>The \<^verbatim>\<open>do\<close> loop, which runs the walk again as long as \<^verbatim>\<open>change\<close> was set.\<close>

partial_function (option) fgUpdateFlowGraph_loop ::
  "flowOps \<Rightarrow> bool \<Rightarrow> Compiler \<Rightarrow> bool \<Rightarrow> (jit_fault + Compiler \<times> bool) option" where
  "fgUpdateFlowGraph_loop ops doTailDuplication c modified =
     (case fgUpdateFlowGraph_walk ops doTailDuplication (fgFirstBB c) None (c, False, modified) of
        None \<Rightarrow> None
      | Some (Inl e) \<Rightarrow> Some (Inl e)
      | Some (Inr (c', change, modified')) \<Rightarrow>
          if change then fgUpdateFlowGraph_loop ops doTailDuplication c' modified'
          else Some (Inr (c', modified')))"

declare fgUpdateFlowGraph_loop.simps [code]

definition fgUpdateFlowGraph ::
  "flowOps \<Rightarrow> bool \<Rightarrow> bool \<Rightarrow> Compiler \<Rightarrow> (jit_fault + Compiler \<times> bool) option" where
  "fgUpdateFlowGraph ops doTailDuplication isPhase c =
     (if \<not> opts_OptimizationEnabled c then Some (Inl noway_assert_failed)
      else fgUpdateFlowGraph_loop ops doTailDuplication c False)"

definition fgUpdateFlowGraphPhase :: "flowOps \<Rightarrow> Compiler \<Rightarrow> (jit_fault + Compiler \<times> bool) option" where
  "fgUpdateFlowGraphPhase ops c =
     (case fgUpdateFlowGraph ops False True c of
        None \<Rightarrow> None
      | Some (Inl e) \<Rightarrow> Some (Inl e)
      | Some (Inr (c', madeChanges)) \<Rightarrow>
          Some (Inr (c'\<lparr>fgDomsComputed := False, optLoopTableValid := False,
                       optLoopsRequirePreHeaders := False\<rparr>, madeChanges)))"

section \<open>fgRemoveUnreachableBlocks and the loop of fgRemoveDeadBlocks\<close>

























text \<open>
  Two compilations with the same block list, return block and throw helpers, in which every
  block has the same number, reference count and jump, and is marked \<^verbatim>\<open>BBF_DONT_REMOVE\<close>
  in both or in neither.
\<close>

definition sameEdges :: "Compiler \<Rightarrow> Compiler \<Rightarrow> bool" where
  "sameEdges c c' =
     (fgBBlist c' = fgBBlist c \<and> genReturnBB c' = genReturnBB c
      \<and> fgAddCodeList c' = fgAddCodeList c
      \<and> (\<forall>x. bbNum (blk c' x) = bbNum (blk c x) \<and> bbRefs (blk c' x) = bbRefs (blk c x)
             \<and> bbJumpKind (blk c' x) = bbJumpKind (blk c x)
             \<and> bbJumpDest (blk c' x) = bbJumpDest (blk c x)
             \<and> bbJumpEhf (blk c' x) = bbJumpEhf (blk c x)
             \<and> bbJumpSwt (blk c' x) = bbJumpSwt (blk c x)
             \<and> (BBF_DONT_REMOVE \<in> bbFlags (blk c' x) \<longleftrightarrow> BBF_DONT_REMOVE \<in> bbFlags (blk c x))))"



section \<open>Depth-first numbering: fgDfsReversePostorder\<close>

text \<open>
  A \<^verbatim>\<open>BlockSet\<close> of the current epoch holds block numbers below
  \<open>fgCurBBEpochSize\<close>; an access at a larger number is outside the bit vector.
\<close>

definition IsMember :: "Compiler \<Rightarrow> nat set \<Rightarrow> nat \<Rightarrow> jit_fault + bool" where
  "IsMember c s n = (if n < fgCurBBEpochSize c then Inr (n \<in> s) else Inl bitset_out_of_range)"

definition AddElemD :: "Compiler \<Rightarrow> nat set \<Rightarrow> nat \<Rightarrow> jit_fault + nat set" where
  "AddElemD c s n = (if n < fgCurBBEpochSize c then Inr (insert n s) else Inl bitset_out_of_range)"

text \<open>
  The state of the traversal: the compilation (the numbers of the blocks and the array
  \<^verbatim>\<open>fgBBReversePostorder\<close> are written), the visited set and the two counters.
\<close>

type_synonym dfsState = "Compiler \<times> nat set \<times> nat \<times> nat"

text \<open>
  The \<^verbatim>\<open>while (!stack.Empty())\<close> loop of \<^verbatim>\<open>fgDfsReversePostorderHelper\<close>. A stack
  entry \<^verbatim>\<open>DfsBlockEntry\<close> is a block with the successors that \<^verbatim>\<open>getNextSucc\<close> has not
  returned yet. The reverse-postorder index \<^verbatim>\<open>fgBBcount - postorderIndex + 1\<close> is computed
  in unsigned arithmetic.
\<close>

function fgDfsReversePostorderHelper_loop ::
  "(bref \<times> bref list) list \<Rightarrow> dfsState \<Rightarrow> jit_fault + dfsState" where
  "fgDfsReversePostorderHelper_loop [] st = Inr st"
| "fgDfsReversePostorderHelper_loop ((block, []) # stack) (c, visited, preorderIndex, postorderIndex) =
     (if postorderIndex > fgBBcount c + 1
         \<or> fgBBcount c + 1 - postorderIndex \<ge> length (fgBBReversePostorder c)
      then Inl array_out_of_bounds
      else fgDfsReversePostorderHelper_loop stack
             ((updBlk block (\<lambda>b. b\<lparr>bbPostorderNum := postorderIndex\<rparr>) c)
                \<lparr>fgBBReversePostorder :=
                   (fgBBReversePostorder c)[fgBBcount c + 1 - postorderIndex := Some block]\<rparr>,
              visited, preorderIndex, Suc postorderIndex))"
| "fgDfsReversePostorderHelper_loop ((block, succ # succs) # stack)
       (c, visited, preorderIndex, postorderIndex) =
     (if bbNum (blk c succ) \<ge> fgCurBBEpochSize c then Inl bitset_out_of_range
      else if bbNum (blk c succ) \<in> visited
      then fgDfsReversePostorderHelper_loop ((block, succs) # stack)
             (c, visited, preorderIndex, postorderIndex)
      else fgDfsReversePostorderHelper_loop ((succ, Succs c succ) # (block, succs) # stack)
             (updBlk succ (\<lambda>b. b\<lparr>bbPreorderNum := preorderIndex\<rparr>) c,
              insert (bbNum (blk c succ)) visited, Suc preorderIndex, postorderIndex))"
  by pat_completeness auto
termination
proof (relation "inv_image (less_than <*lex*> less_than)
    (\<lambda>(stack, (c, visited, preorderIndex, postorderIndex)).
       (card ({..<fgCurBBEpochSize c} - visited),
        sum_list (map (\<lambda>(block, succs). Suc (length succs)) stack)))", goal_cases)
  case 1
  show ?case by (intro wf_inv_image wf_lex_prod wf_less_than)
next
  case (2 block stack c visited preorderIndex postorderIndex)
  show ?case by (simp add: updBlk_def)
next
  case (3 block succ succs stack c visited preorderIndex postorderIndex)
  show ?case by simp
next
  case (4 block succ succs stack c visited preorderIndex postorderIndex)
  have fin: "finite ({..<fgCurBBEpochSize c} - visited)" by simp
  have mem: "bbNum (blk c succ) \<in> {..<fgCurBBEpochSize c} - visited"
    using 4 by simp
  have eq: "{..<fgCurBBEpochSize c} - insert (bbNum (blk c succ)) visited
        = ({..<fgCurBBEpochSize c} - visited) - {bbNum (blk c succ)}"
    by blast
  have "card ({..<fgCurBBEpochSize c} - insert (bbNum (blk c succ)) visited)
        < card ({..<fgCurBBEpochSize c} - visited)"
    unfolding eq using fin mem by (rule card_Diff1_less)
  then show ?case by (simp add: updBlk_def)
qed

definition fgDfsReversePostorderHelper :: "bref \<Rightarrow> dfsState \<Rightarrow> jit_fault + dfsState" where
  "fgDfsReversePostorderHelper block st =
     (case st of (c, visited, preorderIndex, postorderIndex) \<Rightarrow>
        bindF (AddElemD c visited (bbNum (blk c block))) (\<lambda>visited'.
        fgDfsReversePostorderHelper_loop [(block, Succs c block)]
          (updBlk block (\<lambda>b. b\<lparr>bbPreorderNum := preorderIndex\<rparr>) c,
           visited', Suc preorderIndex, postorderIndex)))"

text \<open>A root is walked from unless it has been visited already.\<close>

definition dfsFromUnvisited :: "bref \<Rightarrow> dfsState \<Rightarrow> jit_fault + dfsState" where
  "dfsFromUnvisited block st =
     (case st of (c, visited, preorderIndex, postorderIndex) \<Rightarrow>
        bindF (IsMember c visited (bbNum (blk c block))) (\<lambda>seen.
        if seen then Inr st else fgDfsReversePostorderHelper block st))"

fun dfsFromAll :: "bref list \<Rightarrow> dfsState \<Rightarrow> jit_fault + dfsState" where
  "dfsFromAll [] st = Inr st"
| "dfsFromAll (block # blocks) st = bindF (dfsFromUnvisited block st) (dfsFromAll blocks)"

definition ehRoots :: "Compiler \<Rightarrow> bref list" where
  "ehRoots c = concat (map (\<lambda>HBtab. optList (ebdFilter HBtab) @ [ebdHndBeg HBtab]) (compHndBBtab c))"

definition fgDfsReversePostorder :: "Compiler \<Rightarrow> jit_fault + Compiler \<times> nat" where
  "fgDfsReversePostorder c =
     (case fgFirstBB c of
        None \<Rightarrow> Inl null_dereference
      | Some first \<Rightarrow>
          bindF (fgDfsReversePostorderHelper first
                   (c\<lparr>fgBBReversePostorder := replicate (fgBBNumMax c + 1) None\<rparr>, {}, 1, 1))
            (\<lambda>st1.
          bindF (if opts_IsOSR c then dfsFromAll (optList (fgEntryBB c)) st1 else Inr st1)
            (\<lambda>st2.
          bindF (if fst (snd (snd st2)) \<noteq> fgBBcount c + 1 \<and> \<not> compIsForInlining c
                 then dfsFromAll (ehRoots c) st2 else Inr st2)
            (\<lambda>st3.
          let highestReachablePostorderNumber = snd (snd (snd st3)) - 1 in
          bindF (if highestReachablePostorderNumber \<noteq> fgBBcount c
                 then dfsFromAll (fgBBlist c) st3 else Inr st3)
            (\<lambda>(c4, visited, preorderIndex, postorderIndex).
          if preorderIndex = fgBBcount c + 1 \<and> postorderIndex = fgBBcount c + 1
             \<and> fgBBNumMax c = fgBBcount c
          then Inr (c4, highestReachablePostorderNumber)
          else Inl noway_assert_failed)))))"

section \<open>Dominators: fgComputeDoms\<close>

text \<open>
  \<^verbatim>\<open>bbRoot\<close> is a local variable of \<^verbatim>\<open>fgComputeDoms\<close>, the imaginary entry of the flow
  graph, and \<^verbatim>\<open>flRoot\<close> the local edge from it. \<open>bbRootAddr\<close> is the address of the local:
  an address at which no block of the arena lives. The fields of \<^verbatim>\<open>bbRoot\<close> are set once
  and never written again, so a read through a block pointer is \<open>domBlk\<close>.
\<close>

definition bbRootAddr :: bref where
  "bbRootAddr = 0"

definition bbRoot :: "Compiler \<Rightarrow> BasicBlock" where
  "bbRoot c = block0\<lparr>bbPreds := [], bbNum := 0, bbIDom := Some bbRootAddr,
                      bbPostorderNum := fgBBNumMax c + 1, bbFlags := {}\<rparr>"

definition flRoot :: FlowEdge where
  "flRoot = \<lparr>m_sourceBlock = bbRootAddr, m_dupCount = 0, m_edgeWeightMin = 0,
              m_edgeWeightMax = 0\<rparr>"

definition domBlk :: "Compiler \<Rightarrow> bref \<Rightarrow> BasicBlock" where
  "domBlk c p = (if p = bbRootAddr then bbRoot c else blk c p)"

text \<open>
  \<^verbatim>\<open>fgIntersectDom\<close>: the two fingers walk up the \<open>bbIDom\<close> links, the one with the lower
  postorder number first. The loops need not end (two different blocks with the same
  postorder number; a cycle of \<open>bbIDom\<close> links): \<open>None\<close> stands for no return.
\<close>

partial_function (option) fgIntersectDom ::
  "Compiler \<Rightarrow> bref \<Rightarrow> bref \<Rightarrow> (jit_fault + bref) option" where
  "fgIntersectDom c finger1 finger2 =
     (if finger1 = finger2 then Some (Inr finger1)
      else if bbPostorderNum (domBlk c finger1) < bbPostorderNum (domBlk c finger2)
      then (case bbIDom (domBlk c finger1) of
              None \<Rightarrow> Some (Inl null_dereference)
            | Some up \<Rightarrow> fgIntersectDom c up finger2)
      else if bbPostorderNum (domBlk c finger2) < bbPostorderNum (domBlk c finger1)
      then (case bbIDom (domBlk c finger2) of
              None \<Rightarrow> Some (Inl null_dereference)
            | Some up \<Rightarrow> fgIntersectDom c finger1 up)
      else fgIntersectDom c finger1 finger2)"

declare fgIntersectDom.simps [code]

text \<open>
  The set-up: \<^verbatim>\<open>fgFirstBB\<close> and every other block without predecessors get \<^verbatim>\<open>bbRoot\<close> as
  immediate dominator and are marked processed; the latter get \<^verbatim>\<open>flRoot\<close> as their
  predecessor list for the time of the computation.
\<close>

fun fgComputeDoms_orphans ::
  "bref list \<Rightarrow> Compiler \<times> nat set \<Rightarrow> jit_fault + Compiler \<times> nat set" where
  "fgComputeDoms_orphans [] st = Inr st"
| "fgComputeDoms_orphans (block # blocks) (c, processedBlks) =
     (if bbPreds (blk c block) = []
      then bindF (AddElemD c processedBlks (bbNum (blk c block))) (\<lambda>processed'.
           fgComputeDoms_orphans blocks
             (updBlk block (\<lambda>b. b\<lparr>bbPreds := [flRoot], bbIDom := Some bbRootAddr\<rparr>) c,
              processed'))
      else fgComputeDoms_orphans blocks
             (updBlk block (\<lambda>b. b\<lparr>bbIDom := None\<rparr>) c, processedBlks))"

fun fgComputeDoms_ehEntries ::
  "bref list \<Rightarrow> Compiler \<times> nat set \<Rightarrow> jit_fault + Compiler \<times> nat set" where
  "fgComputeDoms_ehEntries [] st = Inr st"
| "fgComputeDoms_ehEntries (block # blocks) (c, processedBlks) =
     bindF (AddElemD c processedBlks (bbNum (blk c block))) (\<lambda>processed'.
     fgComputeDoms_ehEntries blocks
       (updBlk block (\<lambda>b. b\<lparr>bbIDom := Some bbRootAddr\<rparr>) c, processed'))"

definition fgComputeDoms_setup :: "Compiler \<Rightarrow> jit_fault + Compiler \<times> nat set" where
  "fgComputeDoms_setup c =
     (case fgBBlist c of
        [] \<Rightarrow> Inl null_dereference
      | first # others \<Rightarrow>
          if length (fgBBReversePostorder c) = 0 then Inl array_out_of_bounds
          else if fgBBReversePostorder c ! 0 \<noteq> None then Inl noway_assert_failed
          else
            bindF (AddElemD c {} 0) (\<lambda>p0.
            bindF (AddElemD c p0 1) (\<lambda>p1.
            bindF (fgComputeDoms_orphans others
                     (updBlk first (\<lambda>b. b\<lparr>bbIDom := Some bbRootAddr\<rparr>)
                        (c\<lparr>fgBBReversePostorder :=
                             (fgBBReversePostorder c)[0 := Some bbRootAddr]\<rparr>), p1))
              (fgComputeDoms_ehEntries (ehRoots c)))))"

text \<open>One block of the \<^verbatim>\<open>for\<close> loop inside \<^verbatim>\<open>while (changed)\<close>.\<close>

fun firstProcessedPred ::
  "Compiler \<Rightarrow> nat set \<Rightarrow> FlowEdge list \<Rightarrow> jit_fault + FlowEdge option" where
  "firstProcessedPred c processedBlks [] = Inr None"
| "firstProcessedPred c processedBlks (e # es) =
     bindF (IsMember c processedBlks (bbNum (domBlk c (m_sourceBlock e)))) (\<lambda>isProcessed.
     if isProcessed then Inr (Some e) else firstProcessedPred c processedBlks es)"

fun intersectPreds ::
  "Compiler \<Rightarrow> bref \<Rightarrow> FlowEdge list \<Rightarrow> bref \<Rightarrow> (jit_fault + bref) option" where
  "intersectPreds c firstSource [] newidom = Some (Inr newidom)"
| "intersectPreds c firstSource (p # ps) newidom =
     (if m_sourceBlock p = firstSource then intersectPreds c firstSource ps newidom
      else if bbIDom (domBlk c (m_sourceBlock p)) \<noteq> None
      then (case fgIntersectDom c (m_sourceBlock p) newidom of
              None \<Rightarrow> None
            | Some (Inl e) \<Rightarrow> Some (Inl e)
            | Some (Inr meet) \<Rightarrow> intersectPreds c firstSource ps meet)
      else intersectPreds c firstSource ps newidom)"

type_synonym domState = "Compiler \<times> nat set \<times> bool"

definition fgComputeDoms_block :: "nat \<Rightarrow> domState \<Rightarrow> (jit_fault + domState) option" where
  "fgComputeDoms_block i st =
     (case st of (c, processedBlks, changed) \<Rightarrow>
        if i \<ge> length (fgBBReversePostorder c) then Some (Inl array_out_of_bounds)
        else case fgBBReversePostorder c ! i of
               None \<Rightarrow> Some (Inl null_dereference)
             | Some block \<Rightarrow>
                 if bbIDom (domBlk c block) = Some bbRootAddr then Some (Inr st)
                 else
                   (case firstProcessedPred c processedBlks (bbPreds (domBlk c block)) of
                      Inl e \<Rightarrow> Some (Inl e)
                    | Inr None \<Rightarrow> Some (Inl noway_assert_failed)
                    | Inr (Some first) \<Rightarrow>
                        (case intersectPreds c (m_sourceBlock first) (bbPreds (domBlk c block))
                                (m_sourceBlock first) of
                           None \<Rightarrow> None
                         | Some (Inl e) \<Rightarrow> Some (Inl e)
                         | Some (Inr newidom) \<Rightarrow>
                             (case AddElemD c processedBlks (bbNum (domBlk c block)) of
                                Inl e \<Rightarrow> Some (Inl e)
                              | Inr processed' \<Rightarrow>
                                  if bbIDom (domBlk c block) \<noteq> Some newidom
                                  then Some (Inr (updBlk block (\<lambda>b. b\<lparr>bbIDom := Some newidom\<rparr>) c,
                                                  processed', True))
                                  else Some (Inr (c, processed', changed))))))"

fun fgComputeDoms_pass :: "nat list \<Rightarrow> domState \<Rightarrow> (jit_fault + domState) option" where
  "fgComputeDoms_pass [] st = Some (Inr st)"
| "fgComputeDoms_pass (i # idxs) st =
     (case fgComputeDoms_block i st of
        None \<Rightarrow> None
      | Some (Inl e) \<Rightarrow> Some (Inl e)
      | Some (Inr st') \<Rightarrow> fgComputeDoms_pass idxs st')"

text \<open>
  The \<^verbatim>\<open>while (changed)\<close> loop; the source has no bound on its rounds, and \<open>None\<close> stands
  for no return.
\<close>

partial_function (option) fgComputeDoms_fixpoint ::
  "Compiler \<Rightarrow> nat set \<Rightarrow> (jit_fault + Compiler) option" where
  "fgComputeDoms_fixpoint c processedBlks =
     (case fgComputeDoms_pass [1..<Suc (fgBBNumMax c)] (c, processedBlks, False) of
        None \<Rightarrow> None
      | Some (Inl e) \<Rightarrow> Some (Inl e)
      | Some (Inr (c', processed', changed)) \<Rightarrow>
          if changed then fgComputeDoms_fixpoint c' processed' else Some (Inr c'))"

declare fgComputeDoms_fixpoint.simps [code]

text \<open>The predecessor lists that were set to \<^verbatim>\<open>flRoot\<close> are cleared again.\<close>

definition fgComputeDoms_restore :: "Compiler \<Rightarrow> Compiler" where
  "fgComputeDoms_restore c =
     fold (\<lambda>block. updBlk block (\<lambda>b. if bbPreds b = [flRoot] then b\<lparr>bbPreds := []\<rparr> else b))
          (fgBBlist c) c"

text \<open>\<^verbatim>\<open>fgCompDominatedByExceptionalEntryBlocks\<close>.\<close>

fun exceptionalEntryLoop :: "nat list \<Rightarrow> Compiler \<Rightarrow> jit_fault + Compiler" where
  "exceptionalEntryLoop [] c = Inr c"
| "exceptionalEntryLoop (i # idxs) c =
     (if i \<ge> length (fgBBReversePostorder c) then Inl array_out_of_bounds
      else case fgBBReversePostorder c ! i of
             None \<Rightarrow> Inl null_dereference
           | Some block \<Rightarrow>
               bindF (IsMember c (fgEnterBlks c) (bbNum (domBlk c block))) (\<lambda>isEntry.
               if isEntry
               then (if fgFirstBB c \<noteq> Some block
                     then exceptionalEntryLoop idxs
                            (updBlk block (\<lambda>b. b\<lparr>bbFlags := insert BBF_DOMINATED_BY_EXCEPTIONAL_ENTRY
                                                            (bbFlags b)\<rparr>) c)
                     else exceptionalEntryLoop idxs c)
               else (case bbIDom (domBlk c block) of
                       None \<Rightarrow> Inl null_dereference
                     | Some idom \<Rightarrow>
                         if BBF_DOMINATED_BY_EXCEPTIONAL_ENTRY \<in> bbFlags (domBlk c idom)
                         then exceptionalEntryLoop idxs
                                (updBlk block (\<lambda>b. b\<lparr>bbFlags := insert BBF_DOMINATED_BY_EXCEPTIONAL_ENTRY
                                                                (bbFlags b)\<rparr>) c)
                         else exceptionalEntryLoop idxs c)))"

definition fgCompDominatedByExceptionalEntryBlocks :: "Compiler \<Rightarrow> jit_fault + Compiler" where
  "fgCompDominatedByExceptionalEntryBlocks c =
     (if card (fgEnterBlks c) \<noteq> 1 then exceptionalEntryLoop [1..<Suc (fgBBNumMax c)] c
      else Inr c)"

text \<open>
  \<^verbatim>\<open>fgBuildDomTree\<close>: the array of \<^verbatim>\<open>DomTreeNode\<close>s, indexed by block number, as the two
  arrays of its fields. Blocks whose immediate dominator is the imaginary root become the
  roots of a forest, chained through \<open>nextSibling\<close> from \<^verbatim>\<open>fgFirstBB\<close> on, and lose their
  \<open>bbIDom\<close>.
\<close>

record DomTree =
  firstChild :: "bref option list"
  nextSibling :: "bref option list"

fun fgBuildDomTree_loop ::
  "bref option \<Rightarrow> bref list \<Rightarrow> Compiler \<times> DomTree \<times> bref \<Rightarrow> jit_fault + Compiler \<times> DomTree" where
  "fgBuildDomTree_loop imaginaryRoot [] (c, domTree, rootListTail) = Inr (c, domTree)"
| "fgBuildDomTree_loop imaginaryRoot (block # blocks) (c, domTree, rootListTail) =
     (let parent = bbIDom (blk c block) in
      if parent \<noteq> imaginaryRoot
      then (case parent of
              None \<Rightarrow> Inl null_dereference
            | Some par \<Rightarrow>
                if bbNum (blk c block) \<ge> length (nextSibling domTree)
                   \<or> bbNum (domBlk c par) \<ge> length (firstChild domTree)
                then Inl array_out_of_bounds
                else fgBuildDomTree_loop imaginaryRoot blocks
                       (c,
                        domTree\<lparr>nextSibling := (nextSibling domTree)
                                   [bbNum (blk c block) := firstChild domTree ! bbNum (domBlk c par)],
                                firstChild := (firstChild domTree)
                                   [bbNum (domBlk c par) := Some block]\<rparr>,
                        rootListTail))
      else if imaginaryRoot \<noteq> None
      then (if bbNum (blk c rootListTail) \<ge> length (nextSibling domTree)
            then Inl array_out_of_bounds
            else fgBuildDomTree_loop imaginaryRoot blocks
                   (updBlk block (\<lambda>b. b\<lparr>bbIDom := None\<rparr>) c,
                    domTree\<lparr>nextSibling := (nextSibling domTree)
                               [bbNum (blk c rootListTail) := Some block]\<rparr>,
                    block))
      else fgBuildDomTree_loop imaginaryRoot blocks (c, domTree, rootListTail))"

definition fgBuildDomTree :: "Compiler \<Rightarrow> jit_fault + Compiler \<times> DomTree" where
  "fgBuildDomTree c =
     (case fgBBlist c of
        [] \<Rightarrow> Inl null_dereference
      | first # others \<Rightarrow>
          let imaginaryRoot = bbIDom (blk c first);
              c1 = (if imaginaryRoot \<noteq> None then updBlk first (\<lambda>b. b\<lparr>bbIDom := None\<rparr>) c else c)
          in fgBuildDomTree_loop imaginaryRoot others
               (c1, \<lparr>firstChild = replicate (fgBBNumMax c + 1) None,
                     nextSibling = replicate (fgBBNumMax c + 1) None\<rparr>, first))"

text \<open>
  Modelled from the spec: \<^verbatim>\<open>DomTreeVisitor::WalkTree\<close> is defined in \<^verbatim>\<open>compiler.h\<close>,
  which is not among the sources. A depth-first walk over the dominator forest assigns
  pre- and post-order numbers, counting from 1: a node is numbered in pre-order when it is
  entered and in post-order when its children are done; the walk goes to the first child,
  else to the next sibling, else back to the parent. The state is the two arrays and the two
  counters. \<open>entering\<close> tells whether \<open>block\<close> is entered or left. \<open>None\<close> stands for a walk
  that does not end (links that form a cycle).
\<close>

type_synonym numberState = "nat list \<times> nat list \<times> nat \<times> nat"

partial_function (option) WalkTree ::
  "Compiler \<Rightarrow> DomTree \<Rightarrow> bool \<Rightarrow> bref \<Rightarrow> numberState \<Rightarrow> (jit_fault + numberState) option" where
  "WalkTree c domTree entering block st =
     (case st of (pre, post, preNum, postNum) \<Rightarrow>
        if bbNum (blk c block) \<ge> length pre \<or> bbNum (blk c block) \<ge> length post
           \<or> bbNum (blk c block) \<ge> length (firstChild domTree)
           \<or> bbNum (blk c block) \<ge> length (nextSibling domTree)
        then Some (Inl array_out_of_bounds)
        else if entering
        then (case firstChild domTree ! bbNum (blk c block) of
                Some child \<Rightarrow>
                  WalkTree c domTree True child
                    (pre[bbNum (blk c block) := preNum], post, Suc preNum, postNum)
              | None \<Rightarrow>
                  WalkTree c domTree False block
                    (pre[bbNum (blk c block) := preNum], post, Suc preNum, postNum))
        else (case nextSibling domTree ! bbNum (blk c block) of
                Some sibling \<Rightarrow>
                  WalkTree c domTree True sibling
                    (pre, post[bbNum (blk c block) := postNum], preNum, Suc postNum)
              | None \<Rightarrow>
                  (case bbIDom (blk c block) of
                     Some parent \<Rightarrow>
                       WalkTree c domTree False parent
                         (pre, post[bbNum (blk c block) := postNum], preNum, Suc postNum)
                   | None \<Rightarrow>
                       Some (Inr (pre, post[bbNum (blk c block) := postNum], preNum,
                                  Suc postNum)))))"

declare WalkTree.simps [code]

definition fgNumberDomTree :: "Compiler \<Rightarrow> DomTree \<Rightarrow> (jit_fault + Compiler) option" where
  "fgNumberDomTree c domTree =
     (case fgFirstBB c of
        None \<Rightarrow> Some (Inl null_dereference)
      | Some first \<Rightarrow>
          (case WalkTree c domTree True first
                  (replicate (fgBBNumMax c + 1) 0, replicate (fgBBNumMax c + 1) 0, 1, 1) of
             None \<Rightarrow> None
           | Some (Inl e) \<Rightarrow> Some (Inl e)
           | Some (Inr (pre, post, preNum, postNum)) \<Rightarrow>
               if preNum = fgBBNumMax c + 1 \<and> postNum = fgBBNumMax c + 1
                  \<and> pre ! 0 = 0 \<and> post ! 0 = 0 \<and> pre ! 1 = 1
               then Some (Inr (c\<lparr>fgDomTreePreOrder := pre, fgDomTreePostOrder := post\<rparr>))
               else Some (Inl noway_assert_failed)))"

definition fgComputeDoms :: "Compiler \<Rightarrow> (jit_fault + Compiler) option" where
  "fgComputeDoms c =
     (case fgComputeDoms_setup c of
        Inl e \<Rightarrow> Some (Inl e)
      | Inr (c1, processedBlks) \<Rightarrow>
          (case fgComputeDoms_fixpoint c1 processedBlks of
             None \<Rightarrow> None
           | Some (Inl e) \<Rightarrow> Some (Inl e)
           | Some (Inr c2) \<Rightarrow>
               (case bindF (fgCompDominatedByExceptionalEntryBlocks (fgComputeDoms_restore c2))
                       fgBuildDomTree of
                  Inl e \<Rightarrow> Some (Inl e)
                | Inr (c3, domTree) \<Rightarrow>
                    (case fgNumberDomTree c3 domTree of
                       None \<Rightarrow> None
                     | Some (Inl e) \<Rightarrow> Some (Inl e)
                     | Some (Inr c4) \<Rightarrow>
                         Some (Inr (c4\<lparr>fgModified := False, fgDomBBcount := fgBBcount c4,
                                       fgDomsComputed := True\<rparr>))))))"

section \<open>The queries fgDominate and fgReachable\<close>

text \<open>
  \<^verbatim>\<open>fgDominate\<close> is recursive for a block \<open>b2\<close> numbered after the dominators were
  computed: it asks for each predecessor in turn. \<open>fuel\<close> bounds the depth of the recursion;
  the query on blocks within the numbering does not use it.
\<close>

fun allPredsDominated :: "(bref \<Rightarrow> jit_fault + bool) \<Rightarrow> bref list \<Rightarrow> jit_fault + bool" where
  "allPredsDominated q [] = Inr True"
| "allPredsDominated q (predBlock # preds) =
     bindF (q predBlock) (\<lambda>d. if \<not> d then Inr False else allPredsDominated q preds)"



text \<open>
  Two compilations with the same block list, the same block counts and the same predecessor
  list at every block.
\<close>

definition samePreds :: "Compiler \<Rightarrow> Compiler \<Rightarrow> bool" where
  "samePreds c c' = (fgBBlist c' = fgBBlist c \<and> fgBBcount c' = fgBBcount c
        \<and> fgBBNumMax c' = fgBBNumMax c \<and> (\<forall>b. bbPreds (blk c' b) = bbPreds (blk c b)))"


subsection \<open>Example inputs\<close>


text \<open>
  Blocks 1 and 2 both jump to the rarely-run block 3; block 1 carries a profile weight.
\<close>

definition exProfile :: Compiler where
  "exProfile = compiler0\<lparr>
     blk := (\<lambda>b. if b = 1 then block0\<lparr>bbNum := 1, bbJumpKind := BBJ_ALWAYS, bbJumpDest := Some 3,
                                         bbFlags := {BBF_PROF_WEIGHT}, bbWeight := 5, bbRefs := 1\<rparr>
                else if b = 2 then block0\<lparr>bbNum := 2, bbJumpKind := BBJ_ALWAYS, bbJumpDest := Some 3\<rparr>
                else if b = 3 then block0\<lparr>bbNum := 3, bbFlags := {BBF_RUN_RARELY}, bbWeight := 0,
                                         bbRefs := 2\<rparr>
                else block0),
     fgBBlist := [1, 2, 3], fgBBNumMax := 3, fgBBcount := 3, fgCurBBEpochSize := 4\<rparr>"

text \<open>
  Two blocks to compact: block 1 holds a phi definition (statement 0) and a store
  (statement 1), block 2 holds a phi definition only (statement 2). In \<open>exPhiFree\<close> the
  first statement of block 1 is a store as well, so block 1 has no phi definition.
\<close>

definition phiNode :: GenTree where
  "phiNode = GenTree GT_STORE_LCL_VAR TYP_INT {GTF_ASG} [GenTree GT_PHI TYP_INT {} [] 0] 0"

definition plainNode :: GenTree where
  "plainNode = GenTree GT_STORE_LCL_VAR TYP_INT {GTF_ASG} [GenTree GT_CNS_INT TYP_INT {} [] 5] 1"

definition exPhi :: Compiler where
  "exPhi = compiler0\<lparr>
     blk := (\<lambda>b. if b = 1 then block0\<lparr>bbNum := 1, bbJumpKind := BBJ_ALWAYS, bbJumpDest := Some 2,
                                         bbStmtList := Some 0, bbRefs := 1\<rparr>
                else if b = 2 then block0\<lparr>bbNum := 2, bbStmtList := Some 2, bbRefs := 1,
                        bbPreds := [\<lparr>m_sourceBlock = 1, m_dupCount = 1,
                                            m_edgeWeightMin = 0, m_edgeWeightMax = 0\<rparr>]\<rparr>
                else block0),
     fgBBlist := [1, 2], fgBBNumMax := 2, fgBBcount := 2, fgCurBBEpochSize := 3,
     stmts := [\<lparr>m_rootNode = phiNode, m_next = Some 1, m_prev = Some 1\<rparr>,
               \<lparr>m_rootNode = plainNode, m_next = None, m_prev = Some 0\<rparr>,
               \<lparr>m_rootNode = phiNode, m_next = None, m_prev = Some 2\<rparr>]\<rparr>"

definition exPhiFree :: Compiler where
  "exPhiFree = exPhi\<lparr>
     stmts := [\<lparr>m_rootNode = plainNode, m_next = Some 1, m_prev = Some 1\<rparr>,
               \<lparr>m_rootNode = plainNode, m_next = None, m_prev = Some 0\<rparr>,
               \<lparr>m_rootNode = phiNode, m_next = None, m_prev = Some 2\<rparr>]\<rparr>"



definition callNode :: GenTree where
  "callNode = GenTree GT_CALL TYP_INT {GTF_CALL} [] 0"

definition edge1 :: "bref \<Rightarrow> nat \<Rightarrow> FlowEdge" where
  "edge1 p n = \<lparr>m_sourceBlock = p, m_dupCount = n, m_edgeWeightMin = 0, m_edgeWeightMax = 0\<rparr>"





text \<open>
  A try region with a catch handler. Block 1 is the entry and the body of the try, block 2
  the handler; both jump to block 3, which returns. \<open>exCatchDfs\<close> is the compilation
  after \<^verbatim>\<open>fgDfsReversePostorder\<close> and \<open>exCatchDoms\<close> after \<^verbatim>\<open>fgComputeDoms\<close>.
  \<open>exDiamond\<close> has no handler: block 1 branches to blocks 2 and 3, which join at
  block 4, followed by block 5. \<open>exDiamondNew\<close> is \<open>exDiamondDoms\<close> with a block 6
  added behind block 5 after the dominators were computed.
\<close>

definition exCatch :: Compiler where
  "exCatch = compiler0\<lparr>
     blk := (\<lambda>b. if b = 1 then block0\<lparr>bbNum := 1, bbJumpKind := BBJ_ALWAYS, bbJumpDest := Some 3,
                                         bbRefs := 1, bbTryIndex := Some 0\<rparr>
                else if b = 2 then block0\<lparr>bbNum := 2, bbJumpKind := BBJ_EHCATCHRET,
                        bbJumpDest := Some 3, bbRefs := 1, bbHndIndex := Some 0, bbCatchTyp := 1\<rparr>
                else if b = 3 then block0\<lparr>bbNum := 3, bbRefs := 2,
                        bbPreds := [edge1 1 1, edge1 2 1]\<rparr>
                else block0),
     fgBBlist := [1, 2, 3], fgBBNumMax := 3, fgBBcount := 3, fgCurBBEpochSize := 4,
     compHndBBtab := [\<lparr>ebdTryBeg = 1, ebdTryLast = 1, ebdHndBeg = 2, ebdHndLast = 2,
                       ebdFilter = None, ebdEnclosingTryIndex = None\<rparr>],
     fgEnterBlks := {1, 2}\<rparr>"

definition exDiamond :: Compiler where
  "exDiamond = compiler0\<lparr>
     blk := (\<lambda>b. if b = 1 then block0\<lparr>bbNum := 1, bbJumpKind := BBJ_COND, bbJumpDest := Some 3,
                                         bbRefs := 1\<rparr>
                else if b = 2 then block0\<lparr>bbNum := 2, bbJumpKind := BBJ_ALWAYS,
                        bbJumpDest := Some 4, bbRefs := 1, bbPreds := [edge1 1 1]\<rparr>
                else if b = 3 then block0\<lparr>bbNum := 3, bbJumpKind := BBJ_ALWAYS,
                        bbJumpDest := Some 4, bbRefs := 1, bbPreds := [edge1 1 1]\<rparr>
                else if b = 4 then block0\<lparr>bbNum := 4, bbJumpKind := BBJ_ALWAYS,
                        bbJumpDest := Some 5, bbRefs := 2,
                        bbPreds := [edge1 2 1, edge1 3 1]\<rparr>
                else if b = 5 then block0\<lparr>bbNum := 5, bbRefs := 1, bbPreds := [edge1 4 1]\<rparr>
                else block0),
     fgBBlist := [1, 2, 3, 4, 5], fgBBNumMax := 5, fgBBcount := 5, fgCurBBEpochSize := 6,
     fgEnterBlks := {1}\<rparr>"


definition exCatchDfs :: Compiler where
  "exCatchDfs =
     updBlk 1 (\<lambda>b. b\<lparr>bbPreorderNum := 1, bbPostorderNum := 2\<rparr>)
       (updBlk 2 (\<lambda>b. b\<lparr>bbPreorderNum := 3, bbPostorderNum := 3\<rparr>)
          (updBlk 3 (\<lambda>b. b\<lparr>bbPreorderNum := 2, bbPostorderNum := 1\<rparr>)
             (exCatch\<lparr>fgBBReversePostorder := [None, Some 2, Some 1, Some 3]\<rparr>)))"


definition exDiamondDfs :: Compiler where
  "exDiamondDfs =
     updBlk 1 (\<lambda>b. b\<lparr>bbPreorderNum := 1, bbPostorderNum := 5\<rparr>)
       (updBlk 2 (\<lambda>b. b\<lparr>bbPreorderNum := 2, bbPostorderNum := 3\<rparr>)
          (updBlk 3 (\<lambda>b. b\<lparr>bbPreorderNum := 5, bbPostorderNum := 4\<rparr>)
             (updBlk 4 (\<lambda>b. b\<lparr>bbPreorderNum := 3, bbPostorderNum := 2\<rparr>)
                (updBlk 5 (\<lambda>b. b\<lparr>bbPreorderNum := 4, bbPostorderNum := 1\<rparr>)
                   (exDiamond\<lparr>fgBBReversePostorder :=
                      [None, Some 1, Some 3, Some 2, Some 4, Some 5]\<rparr>)))))"



text \<open>
  \<open>exLinkedRemoved\<close>: block 1 holds a statement and jumps to block 3, its only
  predecessor; between them block 2, marked \<^verbatim>\<open>BBF_REMOVED\<close>, is still linked into the
  block list. \<open>exUnlinked\<close> is the same compilation with block 2 unlinked, and
  \<open>exCompacted\<close> the compilation after blocks 1 and 3 were compacted. \<open>opsNone\<close> are
  rewrites that never return.
\<close>

definition exLinkedRemoved :: Compiler where
  "exLinkedRemoved = compiler0\<lparr>
     blk := (\<lambda>b. if b = 1 then block0\<lparr>bbNum := 1, bbJumpKind := BBJ_ALWAYS, bbJumpDest := Some 3,
                                         bbStmtList := Some 0, bbRefs := 1\<rparr>
                else if b = 2 then block0\<lparr>bbNum := 2, bbFlags := {BBF_REMOVED}\<rparr>
                else if b = 3 then block0\<lparr>bbNum := 3, bbStmtList := Some 1, bbRefs := 1,
                        bbPreds := [edge1 1 1]\<rparr>
                else block0),
     fgBBlist := [1, 2, 3], fgBBNumMax := 3, fgBBcount := 3, fgCurBBEpochSize := 4,
     stmts := [\<lparr>m_rootNode = plainNode, m_next = None, m_prev = Some 0\<rparr>,
               \<lparr>m_rootNode = callNode, m_next = None, m_prev = Some 1\<rparr>]\<rparr>"


definition exUnlinked :: Compiler where
  "exUnlinked = exLinkedRemoved\<lparr>fgBBlist := [1, 3]\<rparr>"

definition exCompacted :: Compiler where
  "exCompacted =
     updBlk 1 (\<lambda>b. b\<lparr>bbJumpKind := BBJ_RETURN, bbFlags := {BBF_NONE_QUIRK}\<rparr>)
       (updBlk 3 (\<lambda>b. b\<lparr>bbFlags := {BBF_REMOVED}, bbRefs := 0, bbPreds := []\<rparr>)
          (exUnlinked\<lparr>fgBBlist := [1], fgBBcount := 2, fgModified := True,
             stmts := [\<lparr>m_rootNode = plainNode, m_next = Some 1, m_prev = Some 1\<rparr>,
                       \<lparr>m_rootNode = callNode, m_next = None, m_prev = Some 0\<rparr>]\<rparr>))"

definition opsNone :: flowOps where
  "opsNone = \<lparr>op_fgOptimizeUncondBranchToSimpleCond = (\<lambda>b d c. None),
     op_fgOptimizeBranchToNext = (\<lambda>b n p c. None),
     op_fgOptimizeBranchToEmptyUnconditional = (\<lambda>b d c. None),
     op_reverseConditionalJump = (\<lambda>b n d c. None),
     op_fgOptimizeEmptyBlock = (\<lambda>b c. None),
     op_fgRemoveBlock = (\<lambda>b u c. None),
     op_fgRemoveEhfSuccessor = (\<lambda>b l c. None)\<rparr>"




section \<open>Verified properties\<close>

subsection \<open>The late removability predicate\<close>










subsection \<open>Rarely-run propagation\<close>

lemma rarelyRunPass1_induct [consumes 1, case_names finished skip mark]:
  assumes run: "rarelyRunPass1 c i result = Inr (c', result')"
    and finished: "\<And>i. length (fgBBlist c') \<le> Suc i \<Longrightarrow> P c' i"
    and skip: "\<And>c i. Suc i < length (fgBBlist c) \<Longrightarrow>
          isRunRarely (blk c (fgBBlist c ! i)) \<or> hasProfileWeight (blk c (fgBBlist c ! i))
            \<or> rarelyRunReason c (fgBBlist c ! i) (fgBBlist c ! Suc i) = Inr False \<Longrightarrow>
          P c (Suc i) \<Longrightarrow> P c i"
    and mark: "\<And>c i j. Suc i < length (fgBBlist c) \<Longrightarrow>
          \<not> isRunRarely (blk c (fgBBlist c ! i)) \<Longrightarrow>
          \<not> hasProfileWeight (blk c (fgBBlist c ! i)) \<Longrightarrow>
          rarelyRunReason c (fgBBlist c ! i) (fgBBlist c ! Suc i) = Inr True \<Longrightarrow>
          j = Suc i \<or> (\<exists>bContinue.
               newRunRarely (updBlk (fgBBlist c ! i) bbSetRunRarely c)
                 (fgBBlist c ! Suc i) (fgBBlist c ! i) = Inr (Some bContinue)
               \<and> j = positionOf c bContinue) \<Longrightarrow>
          P (updBlk (fgBBlist c ! i) bbSetRunRarely c) j \<Longrightarrow> P c i"
  shows "P c i"
  using run
proof (induction c i result rule: rarelyRunPass1.induct)
  case (1 c i result)
  let ?bPrev = "fgBBlist c ! i"
  let ?c1 = "updBlk ?bPrev bbSetRunRarely c"
  note run = "1.prems"
  show ?case
  proof (cases "length (fgBBlist c) \<le> Suc i")
    case True
    then have "c' = c" using run by (simp add: rarelyRunPass1.simps)
    then show ?thesis using finished True by simp
  next
    case inList: False
    then have lt: "Suc i < length (fgBBlist c)" by simp
    show ?thesis
    proof (cases "isRunRarely (blk c ?bPrev) \<or> hasProfileWeight (blk c ?bPrev)")
      case True
      then have "rarelyRunPass1 c (Suc i) result = Inr (c', result')"
        using run inList by (subst (asm) rarelyRunPass1.simps) (auto split: if_splits)
      then have "P c (Suc i)"
        using True inList "1.IH"(1,2) by blast
      then show ?thesis using skip[OF lt] True by blast
    next
      case cand: False
      show ?thesis
      proof (cases "rarelyRunReason c ?bPrev (fgBBlist c ! Suc i)")
        case (Inl e)
        then show ?thesis using run inList cand
          by (subst (asm) rarelyRunPass1.simps) simp
      next
        case (Inr reason)
        show ?thesis
        proof (cases reason)
          case False
          then have "rarelyRunPass1 c (Suc i) result = Inr (c', result')"
            using run inList cand Inr by (subst (asm) rarelyRunPass1.simps) simp
          then have "P c (Suc i)"
            using "1.IH"(3)[OF inList _ _ Inr] False cand by blast
          then show ?thesis using skip[OF lt] Inr False by simp
        next
          case True
          show ?thesis
          proof (cases "newRunRarely ?c1 (fgBBlist c ! Suc i) ?bPrev")
            case (Inl e)
            then show ?thesis using run inList cand Inr True
              by (subst (asm) rarelyRunPass1.simps) simp
          next
            case nrr: (Inr bContinue)
            show ?thesis
            proof (cases bContinue)
              case None
              then have "rarelyRunPass1 ?c1 (Suc i) True = Inr (c', result')"
                using run inList cand Inr True nrr
                by (subst (asm) rarelyRunPass1.simps) simp
              then have "P ?c1 (Suc i)"
                using "1.IH"(4)[OF inList _ _ Inr _ nrr None] True cand by auto
              then show ?thesis
                using mark[OF lt, of "Suc i"] cand Inr True by simp
            next
              case (Some bc)
              then have "rarelyRunPass1 ?c1 (positionOf c bc) True = Inr (c', result')"
                using run inList cand Inr True nrr
                by (subst (asm) rarelyRunPass1.simps) simp
              then have "P ?c1 (positionOf c bc)"
                using "1.IH"(5)[OF inList _ _ Inr _ nrr Some] True cand by auto
              then show ?thesis
                using mark[OF lt, of "positionOf c bc"] cand Inr True nrr Some by simp
            qed
          qed
        qed
      qed
    qed
  qed
qed

lemma rarelyRunPass1_profile_frame:
  assumes "rarelyRunPass1 c i result = Inr (c', result')"
  shows "hasProfileWeight (blk c b) \<longrightarrow> blk c' b = blk c b"
  using assms
proof (induction rule: rarelyRunPass1_induct)
  case (finished i)
  show ?case by simp
next
  case (skip c i)
  then show ?case by simp
next
  case (mark c i j)
  show ?case
  proof
    assume prof: "hasProfileWeight (blk c b)"
    then have ne: "b \<noteq> fgBBlist c ! i" using mark(3) by auto
    then have same: "blk (updBlk (fgBBlist c ! i) bbSetRunRarely c) b = blk c b"
      by (simp add: updBlk_def)
    then show "blk c' b = blk c b" using mark(6) prof by simp
  qed
qed

text \<open>
  C10. The first loop of \<^verbatim>\<open>fgExpandRarelyRunBlocks\<close> leaves every block that carries a
  profile weight as it was: such a block is not newly marked rarely run, whatever its
  successors are.
\<close>

theorem pass1_keeps_profiled_blocks:
  assumes "rarelyRunPass1 c i result = Inr (c', result')"
    and "hasProfileWeight (blk c b)"
  shows "blk c' b = blk c b \<and> isRunRarely (blk c' b) = isRunRarely (blk c b)"
  using rarelyRunPass1_profile_frame [OF assms(1), of b] assms(2) by simp

lemma exProfile_pass1:
  "rarelyRunPass1 exProfile 0 False = Inr (updBlk 2 bbSetRunRarely exProfile, True)"
  by (simp add: rarelyRunPass1.simps exProfile_def compiler0_def block0_def isRunRarely_def
        hasProfileWeight_def rarelyRunReason_def jumpDestRunRarely_def newRunRarely_def
        updBlk_def bbSetRunRarely_def)

theorem pass1_keeps_profiled_blocks_witness:
  "rarelyRunPass1 exProfile 0 False = Inr (updBlk 2 bbSetRunRarely exProfile, True)
   \<and> hasProfileWeight (blk exProfile 1)
   \<and> bbJumpDest (blk exProfile 1) = Some 3 \<and> isRunRarely (blk exProfile 3)
   \<and> \<not> isRunRarely (blk (updBlk 2 bbSetRunRarely exProfile) 1)
   \<and> isRunRarely (blk (updBlk 2 bbSetRunRarely exProfile) 2)"
  using pass1_keeps_profiled_blocks [OF exProfile_pass1, of 1] exProfile_pass1
  by (simp add: exProfile_def compiler0_def block0_def isRunRarely_def hasProfileWeight_def
        updBlk_def bbSetRunRarely_def)

subsection \<open>Compaction\<close>

lemmas compact_eval =
  fgCanCompactBlocks_def fgCompactBlocks_def compiler0_def block0_def
  Statements_def KindIs_def HasJumpTo_def countOfInEdges_def isEmpty_def fgBBisScratch_def
  optIsLoopEntry_def fgInDifferentRegions_def sameEHRegion_def isLoopAlign_def PredBlocks_def
  fgCompactBlocks_asserts_def Next_def bbIsTryBeg_def hasTryIndex_def fgRemoveRefPred_def
  fgGetPredForBlock_def updBlk_def bindF_def fgCompactBlocks_otherEdges_def
  fgCompactBlocks_statements_def IsLIR_def fgCompactBlocks_phis_def FirstNonPhiDef_def
  IsPhiDefnStmt_def IsPhiDefn_def phiNode_def plainNode_def GetPrevStmt_def GetNextStmt_def
  derefStmt_def SetNextStmt_def SetPrevStmt_def fgCompactBlocks_append_def lastStmt_def
  fgCompactBlocks_weight_def hasProfileWeight_def BB_ZERO_WEIGHT_def
  fgCompactBlocks_links_def fgCompactBlocks_unlink_def Prev_def fgUnlinkRange_def
  ehUpdateForDeletedBlock_def fgCompactBlocks_jump_def fgCompactBlocks_loopAlign_def
  fgCompactBlocks_renumber_def fgUpdateLoopsAfterCompacting_def Let_def

text \<open>
  C4. \<^verbatim>\<open>fgCompactBlocks\<close> is meant to keep every statement of both blocks. On \<open>exPhi\<close>,
  where \<^verbatim>\<open>fgCanCompactBlocks\<close> holds, both blocks begin with a phi definition and the
  second block holds nothing else: the merged block is left with the statements 0 and 1 of
  the first block, and statement 2 of the second block is in no statement list any more.
  The second block is unlinked and the first has taken over its jump kind. On
  \<open>exPhiFree\<close>, which differs only in that the first block has no phi definition, the
  sibling branch of the code keeps all three statements.
\<close>

theorem fgCompactBlocks_drops_phi_only_block:
  "fgCanCompactBlocks exPhi (Some 1) (Some 2)
   \<and> Statements exPhi 1 = Inr [0, 1] \<and> Statements exPhi 2 = Inr [2]
   \<and> (case fgCompactBlocks 1 2 exPhi of
         Inl e \<Rightarrow> False
       | Inr c' \<Rightarrow> Statements c' 1 = Inr [0, 1] \<and> Statements c' 2 = Inr []
                  \<and> fgBBlist c' = [1] \<and> bbJumpKind (blk c' 1) = BBJ_RETURN)
   \<and> fgCanCompactBlocks exPhiFree (Some 1) (Some 2)
   \<and> (case fgCompactBlocks 1 2 exPhiFree of
         Inl e \<Rightarrow> False
       | Inr c' \<Rightarrow> Statements c' 1 = Inr [2, 0, 1])"
  by (simp add: compact_eval exPhi_def exPhiFree_def)

theorem fgCompactBlocks_drops_phi_only_block_witness:
  "fgCanCompactBlocks exPhi (Some 1) (Some 2)
   \<and> Statements exPhi 1 = Inr [0, 1] \<and> Statements exPhi 2 = Inr [2]
   \<and> fgCanCompactBlocks exPhiFree (Some 1) (Some 2)"
  using fgCompactBlocks_drops_phi_only_block by blast






lemma rarelyRunPass1_list:
  assumes "rarelyRunPass1 c i result = Inr (c', result')"
  shows "fgBBlist c = fgBBlist c'"
  using assms
  by (induction rule: rarelyRunPass1_induct) simp_all










subsection \<open>Switch degeneration\<close>
















subsection \<open>Dominators\<close>

lemma samePreds_refl [simp]: "samePreds c c"
  by (simp add: samePreds_def)



lemma samePreds_updFlags [simp]: "samePreds c (updBlk x (\<lambda>b. b\<lparr>bbFlags := f b\<rparr>) c)"
  by (simp add: samePreds_def blk_updBlk)























lemmas dfs_eval =
  fgDfsReversePostorder_def fgDfsReversePostorderHelper_def dfsFromUnvisited_def ehRoots_def
  fgFirstBB_def AddElemD_def IsMember_def bindF_def Succs_def Next_def optList_def updBlk_def
  compiler0_def block0_def edge1_def Let_def fun_eq_iff eval_nat_numeral

lemmas doms_eval =
  fgComputeDoms_def fgComputeDoms_setup_def fgComputeDoms_block_def
  fgComputeDoms_fixpoint.simps fgIntersectDom.simps fgComputeDoms_restore_def
  fgCompDominatedByExceptionalEntryBlocks_def fgBuildDomTree_def fgNumberDomTree_def
  WalkTree.simps domBlk_def bbRoot_def bbRootAddr_def flRoot_def ehRoots_def
  fgFirstBB_def AddElemD_def IsMember_def bindF_def optList_def updBlk_def
  compiler0_def block0_def edge1_def Let_def fun_eq_iff upt_rec eval_nat_numeral


lemma exDiamond_dfs: "fgDfsReversePostorder exDiamond = Inr (exDiamondDfs, 5)"
  by (simp add: dfs_eval exDiamond_def exDiamondDfs_def)




lemma exCatch_setup:
  "\<exists>c1 p. fgComputeDoms_setup exCatchDfs = Inr (c1, p)"
  by (simp add: doms_eval exCatch_def exCatchDfs_def)


subsection \<open>Dominance\<close>


lemma allPredsDominated_cong:
  "(\<And>p. p \<in> set ps \<Longrightarrow> q p = Inr (r p) \<and> q' p = Inr (r p))
   \<Longrightarrow> allPredsDominated q' ps = allPredsDominated q ps"
  by (induction ps) (simp_all add: bindF_def)








subsection \<open>Repeated flow-graph update\<close>

lemmas flow_eval =
  fgUpdateFlowGraph_def fgUpdateFlowGraph_loop.simps fgUpdateFlowGraph_walk.simps
  fgUpdateFlowGraph_repeat.simps fgUpdateFlowGraph_remove_def reversalShape_def
  JumpsToNext_def IsFirstColdBlock_def SetNext_def NextAfter_def fgFirstBB_def
  exLinkedRemoved_def exUnlinked_def edge1_def callNode_def

lemma exLinkedRemoved_first:
  "fgUpdateFlowGraph ops False isPhase exLinkedRemoved = Some (Inr (exUnlinked, False))"
  by (simp add: flow_eval compact_eval)

lemma exUnlinked_second:
  "fgUpdateFlowGraph ops False isPhase exUnlinked = Some (Inr (exCompacted, True))"
  by (simp add: flow_eval compact_eval exCompacted_def fun_eq_iff)

text \<open>
  C5. On \<open>exLinkedRemoved\<close> a first call of \<^verbatim>\<open>fgUpdateFlowGraph\<close> unlinks block 2 and
  returns false; a second call, with nothing done in between, compacts blocks 1 and 3 and
  returns true. This is so for every behaviour of the rewrites that are parameters of the
  model: none of them is called.
\<close>

theorem fgUpdateFlowGraph_second_call_modifies:
  "fgBBlist exLinkedRemoved = [1, 2, 3]
   \<and> fgUpdateFlowGraph ops False isPhase exLinkedRemoved = Some (Inr (exUnlinked, False))
   \<and> fgBBlist exUnlinked = [1, 3]
   \<and> fgUpdateFlowGraph ops False isPhase exUnlinked = Some (Inr (exCompacted, True))
   \<and> fgBBlist exCompacted = [1]"
  using exLinkedRemoved_first [of ops isPhase] exUnlinked_second [of ops isPhase]
  by (simp add: exLinkedRemoved_def exUnlinked_def exCompacted_def)

theorem fgUpdateFlowGraph_second_call_modifies_witness:
  "fgUpdateFlowGraph opsNone False True exLinkedRemoved = Some (Inr (exUnlinked, False))
   \<and> fgUpdateFlowGraph opsNone False True exUnlinked = Some (Inr (exCompacted, True))"
  using fgUpdateFlowGraph_second_call_modifies [of opsNone True] by blast

subsection \<open>Late removal of unreachable blocks\<close>

lemma sameEdges_refl [simp]: "sameEdges c c"
  by (simp add: sameEdges_def)


lemma sameEdges_stmts [simp]: "sameEdges c (c\<lparr>stmts := h\<rparr>)"
  by (simp add: sameEdges_def)

lemma sameEdges_updStmtList [simp]:
  "sameEdges c (updBlk b (\<lambda>x. x\<lparr>bbStmtList := v\<rparr>) c)"
  by (simp add: sameEdges_def blk_updBlk)

lemma sameEdges_updStmtList_stmts [simp]:
  "sameEdges c (updBlk b (\<lambda>x. x\<lparr>bbStmtList := v\<rparr>) (c\<lparr>stmts := h\<rparr>))"
  by (simp add: sameEdges_def blk_updBlk updBlk_def)
































end
